theory Spec2Isabelle
  imports Main "HOL-Library.AList"
begin

section \<open>Strings and the string helpers\<close>

text \<open>
  A JavaScript string is modelled as a \<^typ>\<open>string\<close>: the character with code \<open>n\<close>
  stands for the code unit \<open>n\<close>, so the embedding covers the strings whose code units are
  below 256. An object used as a dictionary is modelled by its own properties only: as a
  map where the source only reads and writes single keys, and as an association list in
  insertion order where the source iterates over it.

  An exception of the source is a value \<open>Inl e\<close>. \<open>TypeError\<close> is the error of reading or
  writing a property of \<open>undefined\<close> or \<open>null\<close>. \<open>RegExpOutsideModel\<close> marks the one place
  where the embedding does not follow the engine: \<open>new RegExp\<close> on a wildcard name that
  holds a character with a meaning of its own in regular expressions (see
  \<open>patternToRegExp\<close>); a result \<open>Inl RegExpOutsideModel\<close> says nothing about the code.
\<close>

datatype error = TypeError | RegExpOutsideModel

text \<open>White space as \<open>\s\<close> reads it, for code units below 256.\<close>

definition isWhiteSpace :: "char \<Rightarrow> bool" where
  "isWhiteSpace c = (c = CHR 0x09 \<or> c = CHR 0x0A \<or> c = CHR 0x0B \<or> c = CHR 0x0C \<or>
     c = CHR 0x0D \<or> c = CHR 0x20 \<or> c = CHR 0xA0)"

text \<open>The line terminators, which \<open>.\<close> does not match, for code units below 256.\<close>

definition isLineTerminator :: "char \<Rightarrow> bool" where
  "isLineTerminator c = (c = CHR 0x0A \<or> c = CHR 0x0D)"

text \<open>The word characters of \<open>\w\<close>.\<close>

definition charCode :: "char \<Rightarrow> nat" where
  "charCode c = of_char c"

definition isLower :: "char \<Rightarrow> bool" where
  "isLower c = (97 \<le> charCode c \<and> charCode c \<le> 122)"

definition isUpper :: "char \<Rightarrow> bool" where
  "isUpper c = (65 \<le> charCode c \<and> charCode c \<le> 90)"

definition isDigit :: "char \<Rightarrow> bool" where
  "isDigit c = (48 \<le> charCode c \<and> charCode c \<le> 57)"

definition isWordChar :: "char \<Rightarrow> bool" where
  "isWordChar c = (isLower c \<or> isUpper c \<or> isDigit c \<or> c = CHR ''_'')"

text \<open>
  Modelled from the spec: \<open>Tools.trim\<close> is not under src/. It removes the white space at
  both ends of a string (\<open>str.replace(/^\s*|\s*$/g, '')\<close>) and turns \<open>undefined\<close> into
  the empty string.
\<close>

definition trim :: "string \<Rightarrow> string" where
  "trim s = rev (dropWhile isWhiteSpace (rev (dropWhile isWhiteSpace s)))"

text \<open>\<open>String.prototype.split\<close> with a separator of one character.\<close>

fun js_split :: "char \<Rightarrow> string \<Rightarrow> string list" where
  "js_split d [] = [[]]"
| "js_split d (c # cs) =
     (if c = d then [] # js_split d cs
      else (case js_split d cs of [] \<Rightarrow> [[c]] | w # ws \<Rightarrow> (c # w) # ws))"

text \<open>
  \<open>split(items, delim)\<close> of Schema.ts, lines 121 to 124: trim, then split; the empty
  string gives no item at all. The default delimiter is the space.
\<close>

definition split :: "string \<Rightarrow> char \<Rightarrow> string list" where
  "split items delim = (let s = trim items in if s = [] then [] else js_split delim s)"

text \<open>\<open>[a, b].join(' ')\<close>.\<close>

definition join2 :: "string \<Rightarrow> string \<Rightarrow> string" where
  "join2 a b = a @ '' '' @ b"

text \<open>
  \<open>toUpperCase\<close> and \<open>toLowerCase\<close> on the letters of ASCII; the embedding leaves every
  other character as it is.
\<close>

definition upperChar :: "char \<Rightarrow> char" where
  "upperChar c = (if isLower c then char_of (charCode c - 32) else c)"

definition lowerChar :: "char \<Rightarrow> char" where
  "lowerChar c = (if isUpper c then char_of (charCode c + 32) else c)"

definition toUpperCase :: "string \<Rightarrow> string" where
  "toUpperCase s = map upperChar s"

definition toLowerCase :: "string \<Rightarrow> string" where
  "toLowerCase s = map lowerChar s"

text \<open>
  Modelled from the spec: \<open>Tools.inArray\<close> is not under src/. It is the index of the first
  element of the array that equals the value, and \<open>-1\<close> when there is none.
\<close>

fun inArray :: "string list \<Rightarrow> string \<Rightarrow> int" where
  "inArray [] v = -1"
| "inArray (x # xs) v = (if x = v then 0 else (let i = inArray xs v in if i < 0 then -1 else i + 1))"

text \<open>
  \<open>Array.prototype.splice(start, 1)\<close>: a negative start counts from the end of the array,
  and one element is removed at the resulting position, when there is one.
\<close>

definition splice1 :: "int \<Rightarrow> 'a list \<Rightarrow> 'a list" where
  "splice1 start xs =
     (let len = int (length xs);
          actualStart = (if start < 0 then max (len + start) 0 else min start len)
      in take (nat actualStart) xs @ drop (nat actualStart + 1) xs)"

section \<open>Regular expressions\<close>

subsection \<open>The wildcard matchers\<close>

text \<open>
  \<open>patternToRegExp(str)\<close> is \<open>new RegExp('^' + str.replace(/([?+*])/g, '.$1') + '$')\<close>
  (line 498): every wildcard character gets a dot in front of it, and nothing is escaped.
  The compiled expression is modelled as the list of its items. A character of the name
  that is not special in a regular expression is a literal; a dot of the name matches one
  character; \<open>*\<close>, \<open>?\<close> and \<open>+\<close> become \<open>.*\<close>, \<open>.?\<close> and \<open>.+\<close>. The other special characters
  (backslash, \<open>^\<close>, \<open>$\<close>, \<open>|\<close>, parentheses, brackets, braces) would need the full syntax of
  the engine (some of them make \<open>new RegExp\<close> throw a SyntaxError): a name that holds one
  is outside the embedding.
\<close>

datatype rx_item = Lit char | AnyChar | AnyStar | AnyOpt | AnyPlus

type_synonym regexp = "rx_item list"

definition isRegExpSyntax :: "char \<Rightarrow> bool" where
  "isRegExpSyntax c = (c = CHR 0x5C \<or> c = CHR ''^'' \<or> c = CHR ''$'' \<or> c = CHR ''|'' \<or>
     c = CHR ''('' \<or> c = CHR '')'' \<or> c = CHR ''['' \<or> c = CHR '']'' \<or>
     c = CHR ''{'' \<or> c = CHR ''}'')"

definition rx_item_of :: "char \<Rightarrow> rx_item" where
  "rx_item_of c =
     (if c = CHR ''*'' then AnyStar else if c = CHR ''?'' then AnyOpt
      else if c = CHR ''+'' then AnyPlus else if c = CHR ''.'' then AnyChar else Lit c)"

definition patternToRegExp :: "string \<Rightarrow> error + regexp" where
  "patternToRegExp str =
     (if list_ex isRegExpSyntax str then Inl RegExpOutsideModel else Inr (map rx_item_of str))"

text \<open>\<open>RegExp.prototype.test\<close> for such an expression, anchored at both ends.\<close>

fun rx_test :: "regexp \<Rightarrow> string \<Rightarrow> bool" where
  "rx_test [] s = (s = [])"
| "rx_test (Lit c # r) s = (case s of [] \<Rightarrow> False | d # t \<Rightarrow> c = d \<and> rx_test r t)"
| "rx_test (AnyChar # r) s =
     (case s of [] \<Rightarrow> False | d # t \<Rightarrow> \<not> isLineTerminator d \<and> rx_test r t)"
| "rx_test (AnyOpt # r) s =
     (rx_test r s \<or> (case s of [] \<Rightarrow> False | d # t \<Rightarrow> \<not> isLineTerminator d \<and> rx_test r t))"
| "rx_test (AnyStar # r) s =
     (rx_test r s \<or>
      (case s of [] \<Rightarrow> False | d # t \<Rightarrow> \<not> isLineTerminator d \<and> rx_test (AnyStar # r) t))"
| "rx_test (AnyPlus # r) s =
     (case s of [] \<Rightarrow> False | d # t \<Rightarrow> \<not> isLineTerminator d \<and> rx_test (AnyStar # r) t)"

text \<open>\<open>hasPatternsRegExp = /[*?+]/\<close> (line 507).\<close>

definition hasPatternsRegExp :: "string \<Rightarrow> bool" where
  "hasPatternsRegExp s = list_ex (\<lambda>c. c = CHR ''*'' \<or> c = CHR ''?'' \<or> c = CHR ''+'') s"

subsection \<open>The expressions of the rule grammars\<close>

text \<open>
  The four expressions that parse rule strings are embedded as functions from the string
  to the captured groups (\<open>None\<close> for \<open>null\<close>, no match). Each function tries the
  alternatives in the order of the backtracking engine. A greedy run of a character class
  is taken whole: in each of these expressions the item after a run begins with a
  character outside the class (or is the end of the string), so no shorter run can lead to
  a match.
\<close>

text \<open>
  \<open>elementRuleRegExp = /^([#+\-])?([^\[!\/]+)(?:\/([^\[!]+))?(?:(!?)\[([^\]]+)])?$/\<close>
  (line 505). The fields are the groups 1 to 5.
\<close>

record elementRuleMatch =
  er_prefix :: "char option"
  er_elementName :: string
  er_outputName :: "string option"
  er_bang :: "string option"
  er_attrData :: "string option"

text \<open>The tail \<open>(?:(!?)\[([^\]]+)])?$\<close>: groups 4 and 5.\<close>

definition attrBlock :: "string \<Rightarrow> (string option \<times> string option) option" where
  "attrBlock r =
     (if r = [] then Some (None, None)
      else
        (let bang = (if hd r = CHR ''!'' then ''!'' else []);
             r1 = (if hd r = CHR ''!'' then tl r else r)
         in case r1 of
              [] \<Rightarrow> None
            | c # r2 \<Rightarrow>
                if c = CHR ''['' \<and> takeWhile (\<lambda>x. x \<noteq> CHR '']'') r2 \<noteq> [] \<and>
                   dropWhile (\<lambda>x. x \<noteq> CHR '']'') r2 = '']''
                then Some (Some bang, Some (takeWhile (\<lambda>x. x \<noteq> CHR '']'') r2))
                else None))"

text \<open>The tail \<open>(?:\/([^\[!]+))?(?:(!?)\[([^\]]+)])?$\<close>: groups 3, 4 and 5.\<close>

definition isOutputNameChar :: "char \<Rightarrow> bool" where
  "isOutputNameChar c = (c \<noteq> CHR ''['' \<and> c \<noteq> CHR ''!'')"

definition outputAndBlock :: "string \<Rightarrow> (string option \<times> string option \<times> string option) option" where
  "outputAndBlock r =
     (let skipped = map_option (\<lambda>(b, d). (None, b, d)) (attrBlock r)
      in case r of
           [] \<Rightarrow> skipped
         | c # r1 \<Rightarrow>
             if c = CHR ''/'' \<and> takeWhile isOutputNameChar r1 \<noteq> [] then
               (case attrBlock (dropWhile isOutputNameChar r1) of
                  Some (b, d) \<Rightarrow> Some (Some (takeWhile isOutputNameChar r1), b, d)
                | None \<Rightarrow> skipped)
             else skipped)"

text \<open>Group 2 and the tail, with group 1 already decided.\<close>

definition isElementNameChar :: "char \<Rightarrow> bool" where
  "isElementNameChar c = (c \<noteq> CHR ''['' \<and> c \<noteq> CHR ''!'' \<and> c \<noteq> CHR ''/'')"

definition nameAndRest :: "char option \<Rightarrow> string \<Rightarrow> elementRuleMatch option" where
  "nameAndRest prefix s =
     (if takeWhile isElementNameChar s = [] then None
      else
        (case outputAndBlock (dropWhile isElementNameChar s) of
           None \<Rightarrow> None
         | Some (out, b, d) \<Rightarrow>
             Some \<lparr>er_prefix = prefix, er_elementName = takeWhile isElementNameChar s,
                   er_outputName = out, er_bang = b, er_attrData = d\<rparr>))"

definition elementRuleRegExp :: "string \<Rightarrow> elementRuleMatch option" where
  "elementRuleRegExp s =
     (case s of
        [] \<Rightarrow> None
      | c # t \<Rightarrow>
          if c = CHR ''#'' \<or> c = CHR ''+'' \<or> c = CHR ''-'' then
            (case nameAndRest (Some c) t of
               Some m \<Rightarrow> Some m
             | None \<Rightarrow> nameAndRest None s)
          else nameAndRest None s)"

text \<open>
  \<open>attrRuleRegExp = /^([!\-])?(\w+[\\:]:\w+|[^=:<]+)?(?:([=:<])(.*))?$/\<close> (line 506).
  The fields are the groups 1 and 2 and the groups 3 and 4 together, since these two are
  matched together or not at all; group 2 is optional, so it can be \<open>undefined\<close> in a
  match.
\<close>

record attrRuleMatch =
  ar_type :: "char option"
  ar_name :: "string option"
  ar_op :: "(char \<times> string) option"

definition isOpChar :: "char \<Rightarrow> bool" where
  "isOpChar c = (c = CHR ''='' \<or> c = CHR '':'' \<or> c = CHR ''<'')"

text \<open>The tail \<open>(?:([=:<])(.*))?$\<close>: groups 3 and 4.\<close>

definition opAndValue :: "string \<Rightarrow> (char \<times> string) option option" where
  "opAndValue v =
     (case v of
        [] \<Rightarrow> Some None
      | c # t \<Rightarrow>
          if isOpChar c \<and> \<not> list_ex isLineTerminator t then Some (Some (c, t)) else None)"

text \<open>
  The first alternative of group 2, \<open>\w+[\\:]:\w+\<close>: the name it captures and the rest of
  the string.
\<close>

definition qualifiedName :: "string \<Rightarrow> (string \<times> string) option" where
  "qualifiedName u =
     (let w1 = takeWhile isWordChar u; r1 = dropWhile isWordChar u
      in if w1 = [] then None
         else
           (case r1 of
              s # c # r2 \<Rightarrow>
                if (s = CHR 0x5C \<or> s = CHR '':'') \<and> c = CHR '':'' \<and> takeWhile isWordChar r2 \<noteq> []
                then Some (w1 @ [s, c] @ takeWhile isWordChar r2, dropWhile isWordChar r2)
                else None
            | _ \<Rightarrow> None))"

text \<open>Groups 2 to 4, with group 1 already decided.\<close>

definition attrNameAndRest :: "char option \<Rightarrow> string \<Rightarrow> attrRuleMatch option" where
  "attrNameAndRest ty u =
     (let skipped =
            (case opAndValue u of
               Some ov \<Rightarrow> Some \<lparr>ar_type = ty, ar_name = None, ar_op = ov\<rparr>
             | None \<Rightarrow> None);
          plain =
            (if takeWhile (\<lambda>c. \<not> isOpChar c) u = [] then skipped
             else
               (case opAndValue (dropWhile (\<lambda>c. \<not> isOpChar c) u) of
                  Some ov \<Rightarrow>
                    Some \<lparr>ar_type = ty, ar_name = Some (takeWhile (\<lambda>c. \<not> isOpChar c) u),
                          ar_op = ov\<rparr>
                | None \<Rightarrow> skipped))
      in case qualifiedName u of
           None \<Rightarrow> plain
         | Some (n, r) \<Rightarrow>
             (case opAndValue r of
                Some ov \<Rightarrow> Some \<lparr>ar_type = ty, ar_name = Some n, ar_op = ov\<rparr>
              | None \<Rightarrow> plain))"

definition attrRuleRegExp :: "string \<Rightarrow> attrRuleMatch option" where
  "attrRuleRegExp s =
     (case s of
        [] \<Rightarrow> attrNameAndRest None s
      | c # t \<Rightarrow>
          if c = CHR ''!'' \<or> c = CHR ''-'' then
            (case attrNameAndRest (Some c) t of
               Some m \<Rightarrow> Some m
             | None \<Rightarrow> attrNameAndRest None s)
          else attrNameAndRest None s)"

text \<open>\<open>attrName.replace(/[\\:]:/g, ':')\<close> (line 570).\<close>

fun replaceColons :: "string \<Rightarrow> string" where
  "replaceColons (a # b # r) =
     (if (a = CHR 0x5C \<or> a = CHR '':'') \<and> b = CHR '':'' then CHR '':'' # replaceColons r
      else a # replaceColons (b # r))"
| "replaceColons r = r"

text \<open>
  \<open>customElementRegExp = /^(~)?(.+)$/\<close> (line 664): whether group 1 is \<open>~\<close>, and group 2.
\<close>

definition customElementRegExp :: "string \<Rightarrow> (bool \<times> string) option" where
  "customElementRegExp s =
     (let whole = (if s \<noteq> [] \<and> \<not> list_ex isLineTerminator s then Some (False, s) else None)
      in case s of
           [] \<Rightarrow> whole
         | c # t \<Rightarrow>
             if c = CHR ''~'' \<and> t \<noteq> [] \<and> \<not> list_ex isLineTerminator t then Some (True, t)
             else whole)"

text \<open>
  \<open>childRuleRegExp\<close> (line 710), \<open>/^([+\-]?)(N+)\[([^\]]+)]$/\<close>, where \<open>N\<close> is the class of
  the characters of a custom element name; below 256 these are the letters and digits
  of ASCII, \<open>_\<close>, \<open>-\<close>, \<open>.\<close>, \<open>0xB7\<close> and the ranges \<open>0xC0\<close> to \<open>0xD6\<close>, \<open>0xD8\<close> to \<open>0xF6\<close> and
  \<open>0xF8\<close> to \<open>0xFF\<close>. The result holds the groups 1 to 3; group 1 is the empty string
  when there is no prefix.
\<close>

definition isChildNameChar :: "char \<Rightarrow> bool" where
  "isChildNameChar c =
     (isLower c \<or> isUpper c \<or> isDigit c \<or> c = CHR ''_'' \<or> c = CHR ''-'' \<or> c = CHR ''.'' \<or>
      charCode c = 183 \<or> (192 \<le> charCode c \<and> charCode c \<le> 214) \<or>
      (216 \<le> charCode c \<and> charCode c \<le> 246) \<or> 248 \<le> charCode c)"

definition parentAndChildren :: "string \<Rightarrow> string \<Rightarrow> (string \<times> string \<times> string) option" where
  "parentAndChildren prefix s =
     (if takeWhile isChildNameChar s = [] then None
      else
        (case dropWhile isChildNameChar s of
           [] \<Rightarrow> None
         | c # r \<Rightarrow>
             if c = CHR ''['' \<and> takeWhile (\<lambda>x. x \<noteq> CHR '']'') r \<noteq> [] \<and>
                dropWhile (\<lambda>x. x \<noteq> CHR '']'') r = '']''
             then Some (prefix, takeWhile isChildNameChar s, takeWhile (\<lambda>x. x \<noteq> CHR '']'') r)
             else None))"

definition childRuleRegExp :: "string \<Rightarrow> (string \<times> string \<times> string) option" where
  "childRuleRegExp s =
     (case s of
        [] \<Rightarrow> None
      | c # t \<Rightarrow>
          if c = CHR ''+'' \<or> c = CHR ''-'' then
            (case parentAndChildren [c] t of
               Some m \<Rightarrow> Some m
             | None \<Rightarrow> parentAndChildren [] s)
          else parentAndChildren [] s)"

section \<open>The data model\<close>

text \<open>
  The interfaces of Schema.ts, lines 36 to 72. An optional flag that the source only ever
  sets to \<open>true\<close> or leaves out (or deletes) is a \<^typ>\<open>bool\<close>, with \<open>False\<close> for the absent
  flag; every other optional field is an \<open>option\<close>. \<open>validValues\<close> is a dictionary whose
  keys alone matter, so it is a set. A rule object can lack \<open>attributes\<close> and
  \<open>attributesOrder\<close> at run time (the clone of a missing rule, line 689), so both are
  optional in \<open>SchemaElement\<close>. The field \<open>parentsRequired\<close> is not modelled: only the
  constructor writes it (lines 819 to 836, a pass that cannot throw and changes nothing
  else), and no property below reads it.
\<close>

record Attribute =
  required :: bool
  defaultValue :: "string option"
  forcedValue :: "string option"
  validValues :: "string set option"

record AttributePattern = Attribute +
  attr_pattern :: regexp

record DefaultAttribute =
  da_name :: string
  da_value :: string

record SchemaElement =
  attributes :: "(string \<rightharpoonup> Attribute) option"
  attributesOrder :: "string list option"
  attributesDefault :: "DefaultAttribute list option"
  attributesForced :: "DefaultAttribute list option"
  attributePatterns :: "AttributePattern list option"
  attributesRequired :: "string list option"
  paddEmpty :: bool
  removeEmpty :: bool
  removeEmptyAttrs :: bool
  outputName :: "string option"
  pattern :: "regexp option"

text \<open>The attribute rule \<open>{}\<close> and the rule object \<open>{}\<close>.\<close>

definition emptyAttribute :: Attribute where
  "emptyAttribute = \<lparr>required = False, defaultValue = None, forcedValue = None, validValues = None\<rparr>"

definition emptyElement :: SchemaElement where
  "emptyElement =
     \<lparr>attributes = None, attributesOrder = None, attributesDefault = None,
      attributesForced = None, attributePatterns = None, attributesRequired = None,
      paddEmpty = False, removeEmpty = False, removeEmptyAttrs = False,
      outputName = None, pattern = None\<rparr>"

section \<open>The base grammar: compileSchema\<close>

datatype SchemaType = Html4 | Html5 | Html5Strict

text \<open>
  An entry of the table that \<open>compileSchema\<close> builds (lines 165 to 169). Its \<open>children\<close>
  is a dictionary whose values are all the same dummy object: a set of names.
\<close>

record schema_item =
  item_attributes :: "string \<rightharpoonup> Attribute"
  item_attributesOrder :: "string list"
  item_children :: "string set"

type_synonym schema = "(string \<times> schema_item) list"

text \<open>\<open>arrayToMap(array)\<close> (lines 142 to 151), for the attribute names.\<close>

definition arrayToMap :: "string list \<Rightarrow> (string \<rightharpoonup> Attribute)" where
  "arrayToMap array = fold (\<lambda>a m. m(a \<mapsto> emptyAttribute)) array Map.empty"

text \<open>
  \<open>add(name, attributes, children)\<close> (lines 139 to 173); an argument left out is the empty
  string, which the source treats as it treats \<open>undefined\<close>. The loop runs from the last
  name to the first. \<open>globalAttributes\<close> and \<open>schema\<close> are the variables of the enclosing
  function.
\<close>

definition add :: "string \<Rightarrow> string \<Rightarrow> string \<Rightarrow> string \<Rightarrow> schema \<Rightarrow> schema" where
  "add name attrs children globalAttributes schema =
     fold (\<lambda>n sch.
             AList.update n
               \<lparr>item_attributes = arrayToMap (split (join2 globalAttributes attrs) (CHR '' '')),
                item_attributesOrder = split (join2 globalAttributes attrs) (CHR '' ''),
                item_children = set (split children (CHR '' ''))\<rparr> sch)
          (rev (split name (CHR '' ''))) schema"

text \<open>
  \<open>addAttrs(name, attributes)\<close> (lines 175 to 188). Writing an attribute of a name that
  the table does not hold is a TypeError.
\<close>

fun addAttrsTo :: "string list \<Rightarrow> string \<Rightarrow> schema \<Rightarrow> error + schema" where
  "addAttrsTo [] n schema = Inr schema"
| "addAttrsTo (a # as) n schema =
     (case map_of schema n of
        None \<Rightarrow> Inl TypeError
      | Some schemaItem \<Rightarrow>
          addAttrsTo as n
            (AList.update n
               (schemaItem\<lparr>item_attributes := (item_attributes schemaItem)(a \<mapsto> emptyAttribute),
                            item_attributesOrder := item_attributesOrder schemaItem @ [a]\<rparr>)
               schema))"

fun addAttrsNames :: "string list \<Rightarrow> string list \<Rightarrow> schema \<Rightarrow> error + schema" where
  "addAttrsNames [] as schema = Inr schema"
| "addAttrsNames (n # ns) as schema =
     (case addAttrsTo as n schema of
        Inl e \<Rightarrow> Inl e
      | Inr schema' \<Rightarrow> addAttrsNames ns as schema')"

definition addAttrs :: "string \<Rightarrow> string \<Rightarrow> schema \<Rightarrow> error + schema" where
  "addAttrs name attrs schema =
     addAttrsNames (rev (split name (CHR '' ''))) (split attrs (CHR '' '')) schema"

text \<open>
  The body of \<open>compileSchema\<close> is a sequence of calls of \<open>add\<close> and \<open>addAttrs\<close>; the
  embedding writes the calls as a list, in the order of the source, and runs them.
\<close>

datatype call = Add string string string | AddAttrs string string

fun runCall :: "string \<Rightarrow> call \<Rightarrow> schema \<Rightarrow> error + schema" where
  "runCall globalAttributes (Add name attrs children) schema =
     Inr (add name attrs children globalAttributes schema)"
| "runCall globalAttributes (AddAttrs name attrs) schema = addAttrs name attrs schema"

fun runCalls :: "string \<Rightarrow> call list \<Rightarrow> schema \<Rightarrow> error + schema" where
  "runCalls globalAttributes [] schema = Inr schema"
| "runCalls globalAttributes (c # cs) schema =
     (case runCall globalAttributes c schema of
        Inl e \<Rightarrow> Inl e
      | Inr schema' \<Rightarrow> runCalls globalAttributes cs schema')"

text \<open>The variables of lines 196 to 249, for a schema type.\<close>

definition html5Items :: "SchemaType option \<Rightarrow> bool" where
  "html5Items type = (type \<noteq> Some Html4)"

definition html4Items :: "SchemaType option \<Rightarrow> bool" where
  "html4Items type = (type \<noteq> Some Html5Strict)"

definition globalAttributes :: "SchemaType option \<Rightarrow> string" where
  "globalAttributes type =
     ''id accesskey class dir lang style tabindex title role'' @
     (if html5Items type then
        '' contenteditable contextmenu draggable dropzone '' @ ''hidden spellcheck translate''
      else []) @
     (if html4Items type then '' xml:lang'' else [])"

definition html4PhrasingContent :: string where
  "html4PhrasingContent = ''acronym applet basefont big font strike tt''"

definition html4BlockContent :: string where
  "html4BlockContent = ''center dir isindex noframes''"

definition blockContent :: "SchemaType option \<Rightarrow> string" where
  "blockContent type =
     (let b = ''address blockquote div dl fieldset form h1 h2 h3 h4 h5 h6 hr menu ol p pre table ul'' @
              (if html5Items type then
                 '' article aside details dialog figure main header footer hgroup section nav''
               else [])
      in if html4Items type then join2 b html4BlockContent else b)"

definition phrasingContent :: "SchemaType option \<Rightarrow> string" where
  "phrasingContent type =
     (let p = ''a abbr b bdo br button cite code del dfn em embed i iframe img input ins kbd '' @
              ''label map noscript object q s samp script select small span strong sub sup '' @
              ''textarea u var #text #comment'' @
              (if html5Items type then
                 '' audio canvas command datalist mark meter output picture '' @
                 ''progress time wbr video ruby bdi keygen''
               else [])
      in if html4Items type then join2 p html4PhrasingContent else p)"

definition flowContent :: "SchemaType option \<Rightarrow> string" where
  "flowContent type = join2 (blockContent type) (phrasingContent type)"

text \<open>
  The calls of \<open>add\<close> and \<open>addAttrs\<close> follow. The lists of calls take the variables
  \<open>phrasingContent\<close> and \<open>flowContent\<close> of the enclosing function as arguments.
\<close>

text \<open>The calls of lines 233 to 245, made unless the type is html5-strict.\<close>

definition html4Calls :: "string \<Rightarrow> string \<Rightarrow> call list" where
  "html4Calls phrasing flow =
     map (\<lambda>name. Add name [] phrasing) (split html4PhrasingContent (CHR '' '')) @
     map (\<lambda>name. Add name [] flow) (split html4BlockContent (CHR '' ''))"

text \<open>The calls of lines 253 to 301.\<close>

definition baseCalls :: "SchemaType option \<Rightarrow> string \<Rightarrow> string \<Rightarrow> call list" where
  "baseCalls type phrasing flow =
     ([Add ''html'' ''manifest'' ''head body'',
       Add ''head'' [] ''base command link meta noscript script style title'',
       Add ''title hr noscript br'' [] [],
       Add ''base'' ''href target'' [],
       Add ''link'' ''href rel media hreflang type sizes hreflang'' [],
       Add ''meta'' ''name http-equiv content charset'' [],
       Add ''style'' ''media type scoped'' [],
       Add ''script'' ''src async defer type charset'' [],
       Add ''body'' (''onafterprint onbeforeprint onbeforeunload onblur onerror onfocus '' @
         ''onhashchange onload onmessage onoffline ononline onpagehide onpageshow '' @
         ''onpopstate onresize onscroll onstorage onunload'') flow,
       Add ''address dt dd div caption'' [] flow,
       Add (''h1 h2 h3 h4 h5 h6 pre p abbr code var samp kbd sub sup i b u bdo span legend '' @
         ''em strong small s cite dfn'') [] phrasing,
       Add ''blockquote'' ''cite'' flow,
       Add ''ol'' ''reversed start type'' ''li'',
       Add ''ul'' [] ''li'',
       Add ''li'' ''value'' flow,
       Add ''dl'' [] ''dt dd'',
       Add ''a'' ''href target rel media hreflang type'' phrasing,
       Add ''q'' ''cite'' phrasing,
       Add ''ins del'' ''cite datetime'' flow,
       Add ''img'' ''src sizes srcset alt usemap ismap width height'' [],
       Add ''iframe'' ''src name width height'' flow,
       Add ''embed'' ''src type width height'' [],
       Add ''object'' ''data type typemustmatch name usemap form width height''
         (join2 flow ''param''),
       Add ''param'' ''name value'' [],
       Add ''map'' ''name'' (join2 flow ''area''),
       Add ''area'' ''alt coords shape href target rel media hreflang type'' [],
       Add ''table'' ''border''
         (''caption colgroup thead tfoot tbody tr'' @ (if type = Some Html4 then '' col'' else [])),
       Add ''colgroup'' ''span'' ''col'',
       Add ''col'' ''span'' [],
       Add ''tbody thead tfoot'' [] ''tr'',
       Add ''tr'' [] ''td th'',
       Add ''td'' ''colspan rowspan headers'' flow,
       Add ''th'' ''colspan rowspan headers scope abbr'' flow,
       Add ''form'' ''accept-charset action autocomplete enctype method name novalidate target''
         flow,
       Add ''fieldset'' ''disabled form name'' (join2 flow ''legend''),
       Add ''label'' ''form for'' phrasing,
       Add ''input'' (''accept alt autocomplete checked dirname disabled form formaction '' @
         ''formenctype formmethod formnovalidate '' @
         ''formtarget height list max maxlength min multiple name pattern readonly required '' @
         ''size src step type value width'') [],
       Add ''button''
         ''disabled form formaction formenctype formmethod formnovalidate formtarget name type value''
         (if type = Some Html4 then flow else phrasing),
       Add ''select'' ''disabled form multiple name required size'' ''option optgroup'',
       Add ''optgroup'' ''disabled label'' ''option'',
       Add ''option'' ''disabled label selected value'' [],
       Add ''textarea'' ''cols dirname disabled form maxlength name readonly required rows wrap'' [],
       Add ''menu'' ''type label'' (join2 flow ''li''),
       Add ''noscript'' [] flow])"

text \<open>The calls of lines 305 to 328, made unless the type is html4.\<close>

definition html5Calls :: "string \<Rightarrow> string \<Rightarrow> call list" where
  "html5Calls phrasing flow =
     ([Add ''wbr'' [] [],
       Add ''ruby'' [] (join2 phrasing ''rt rp''),
       Add ''figcaption'' [] flow,
       Add ''mark rt rp summary bdi'' [] phrasing,
       Add ''canvas'' ''width height'' flow,
       Add ''video'' (''src crossorigin poster preload autoplay mediagroup loop '' @
         ''muted controls width height buffered'') (join2 flow ''track source''),
       Add ''audio'' (''src crossorigin preload autoplay mediagroup loop muted controls '' @
         ''buffered volume'') (join2 flow ''track source''),
       Add ''picture'' [] ''img source'',
       Add ''source'' ''src srcset type media sizes'' [],
       Add ''track'' ''kind src srclang label default'' [],
       Add ''datalist'' [] (join2 phrasing ''option''),
       Add ''article section nav aside main header footer'' [] flow,
       Add ''hgroup'' [] ''h1 h2 h3 h4 h5 h6'',
       Add ''figure'' [] (join2 flow ''figcaption''),
       Add ''time'' ''datetime'' phrasing,
       Add ''dialog'' ''open'' flow,
       Add ''command'' ''type label icon disabled checked radiogroup command'' [],
       Add ''output'' ''for form name'' phrasing,
       Add ''progress'' ''value max'' phrasing,
       Add ''meter'' ''value min max low high optimum'' phrasing,
       Add ''details'' ''open'' (join2 flow ''summary''),
       Add ''keygen'' ''autofocus challenge disabled form keytype name'' []])"

text \<open>The calls of lines 333 to 365, made unless the type is html5-strict.\<close>

definition html4AttrCalls :: "call list" where
  "html4AttrCalls =
     [AddAttrs ''script'' ''language xml:space'',
      AddAttrs ''style'' ''xml:space'',
      AddAttrs ''object''
        ''declare classid code codebase codetype archive standby align border hspace vspace'',
      AddAttrs ''embed'' ''align name hspace vspace'',
      AddAttrs ''param'' ''valuetype type'',
      AddAttrs ''a'' ''charset name rev shape coords'',
      AddAttrs ''br'' ''clear'',
      AddAttrs ''applet'' ''codebase archive code object alt name width height align hspace vspace'',
      AddAttrs ''img'' ''name longdesc align border hspace vspace'',
      AddAttrs ''iframe'' ''longdesc frameborder marginwidth marginheight scrolling align'',
      AddAttrs ''font basefont'' ''size color face'',
      AddAttrs ''input'' ''usemap align'',
      AddAttrs ''select'' [],
      AddAttrs ''textarea'' [],
      AddAttrs ''h1 h2 h3 h4 h5 h6 div p legend caption'' ''align'',
      AddAttrs ''ul'' ''type compact'',
      AddAttrs ''li'' ''type'',
      AddAttrs ''ol dl menu dir'' ''compact'',
      AddAttrs ''pre'' ''width xml:space'',
      AddAttrs ''hr'' ''align noshade size width'',
      AddAttrs ''isindex'' ''prompt'',
      AddAttrs ''table'' ''summary width frame rules cellspacing cellpadding align bgcolor'',
      AddAttrs ''col'' ''width align char charoff valign'',
      AddAttrs ''colgroup'' ''width align char charoff valign'',
      AddAttrs ''thead'' ''align char charoff valign'',
      AddAttrs ''tr'' ''align char charoff valign bgcolor'',
      AddAttrs ''th'' ''axis align char charoff valign nowrap bgcolor width height'',
      AddAttrs ''form'' ''accept'',
      AddAttrs ''td'' ''abbr axis scope align char charoff valign nowrap bgcolor width height'',
      AddAttrs ''tfoot'' ''align char charoff valign'',
      AddAttrs ''tbody'' ''align char charoff valign'',
      AddAttrs ''area'' ''nohref'',
      AddAttrs ''body'' ''background bgcolor text link vlink alink'']"

text \<open>The calls of lines 370 to 375, made unless the type is html4.\<close>

definition html5AttrCalls :: "call list" where
  "html5AttrCalls =
     [AddAttrs ''input button select textarea'' ''autofocus'',
      AddAttrs ''input textarea'' ''placeholder'',
      AddAttrs ''a'' ''download'',
      AddAttrs ''link script img'' ''crossorigin'',
      AddAttrs ''img'' ''loading'',
      AddAttrs ''iframe'' ''sandbox seamless allowfullscreen loading'']"

text \<open>
  Lines 382 to 386: an element of the list loses itself as a child, when the table holds
  the element.
\<close>

definition deleteSelfChild :: "string \<Rightarrow> schema \<Rightarrow> schema" where
  "deleteSelfChild name schema =
     (case map_of schema name of
        None \<Rightarrow> schema
      | Some item \<Rightarrow> AList.update name (item\<lparr>item_children := item_children item - {name}\<rparr>) schema)"

text \<open>
  Line 394, \<open>delete schema.caption.children.table\<close>: a TypeError when the table holds no
  \<open>caption\<close>.
\<close>

definition deleteCaptionTable :: "schema \<Rightarrow> error + schema" where
  "deleteCaptionTable schema =
     (case map_of schema ''caption'' of
        None \<Rightarrow> Inl TypeError
      | Some item \<Rightarrow>
          Inr (AList.update ''caption'' (item\<lparr>item_children := item_children item - {''table''}\<rparr>)
                 schema))"

text \<open>
  \<open>compileSchema(type)\<close> (lines 134 to 407). The type is \<open>None\<close> when the settings name no
  schema. The table that the function builds is a value of the type alone, so the
  process-wide cache of lines 191 to 193 and 404 changes no result and is left out.
\<close>

definition allCalls :: "SchemaType option \<Rightarrow> string \<Rightarrow> string \<Rightarrow> call list" where
  "allCalls type phrasing flow =
     (if html4Items type then html4Calls phrasing flow else []) @
     baseCalls type phrasing flow @
     (if html5Items type then html5Calls phrasing flow else []) @
     (if html4Items type then html4AttrCalls else []) @
     (if html5Items type then html5AttrCalls else [])"

definition compileSchema :: "SchemaType option \<Rightarrow> error + schema" where
  "compileSchema type =
     (case runCalls (globalAttributes type)
             (allCalls type (phrasingContent type) (flowContent type)) [] of
        Inl e \<Rightarrow> Inl e
      | Inr schema \<Rightarrow>
          (case deleteCaptionTable
                  (fold deleteSelfChild (split ''a form meter progress dfn'' (CHR '' '')) schema) of
             Inl e \<Rightarrow> Inl e
           | Inr schema' \<Rightarrow> Inr (AList.delete ''script'' schema')))"

section \<open>The schema instance\<close>

text \<open>
  The settings that the modelled part of the constructor reads (lines 13 to 34); \<open>None\<close> is
  \<open>undefined\<close>.
\<close>

record SchemaSettings =
  block_elements :: "string option"
  custom_elements :: "string option"
  extended_valid_elements :: "string option"
  invalid_elements :: "string option"
  schema :: "SchemaType option"
  text_block_elements :: "string option"
  valid_children :: "string option"
  valid_elements :: "string option"
  verify_html :: "bool option"

text \<open>
  The variables that the functions of one instance share (lines 431 to 434 and 459, and the
  block elements of line 487). The element rules are values: once a rule is stored, the
  modelled code never writes into it. The sets of children are objects that several keys
  can share and that \<open>addValidChildren\<close> changes in place, so \<open>children\<close> and \<open>schemaItems\<close>
  hold references, \<open>childSets\<close> gives the set behind a reference, and \<open>nextRef\<close> is the
  first unused reference. Of \<open>schemaItems\<close> the instance reads only the children after the
  constructor.

  The process-wide cache hands the same block-elements object to several instances; what
  another instance does to it is outside the embedding, which describes one instance.
  A call that throws is a result \<open>Inl e\<close>; the embedding does not describe the instance
  after it.
\<close>

record schema_state =
  elements :: "string \<rightharpoonup> SchemaElement"
  children :: "(string \<times> nat) list"
  childSets :: "nat \<Rightarrow> string set"
  nextRef :: nat
  patternElements :: "SchemaElement list"
  customElementsMap :: "string \<rightharpoonup> string"
  blockElementsMap :: "string set"
  schemaItems :: "(string \<times> nat) list"

subsection \<open>addValidElements\<close>

text \<open>
  Modelled from the spec: \<open>Tools.makeMap\<close> is not under src/. \<open>makeMap(items, delim, map)\<close>
  splits the string at the delimiter, without trimming, and adds every item as a key to
  the map; no string, or the empty one, adds nothing. Here for one delimiter character and
  no map to start from.
\<close>

definition makeMap :: "string \<Rightarrow> char \<Rightarrow> string set" where
  "makeMap items delim = (if items = [] then {} else set (js_split delim items))"

text \<open>
  The body of the loop over the attribute rules (lines 566 to 623). The state of the loop
  is the three objects it writes: \<open>attributes\<close>, \<open>attributesOrder\<close> and \<open>element\<close>.
\<close>

type_synonym rule_parts = "(string \<rightharpoonup> Attribute) \<times> string list \<times> SchemaElement"

definition orNil :: "'a list option \<Rightarrow> 'a list" where
  "orNil xs = (case xs of None \<Rightarrow> [] | Some l \<Rightarrow> l)"

definition applyOp :: "string \<Rightarrow> (char \<times> string) option \<Rightarrow> SchemaElement \<times> Attribute \<Rightarrow> SchemaElement \<times> Attribute" where
  "applyOp attrName opv ea =
     (case opv of
        None \<Rightarrow> ea
      | Some (prefix, v) \<Rightarrow>
          (let element = fst ea; attr = snd ea in
           if prefix = CHR ''='' then
             (element\<lparr>attributesDefault :=
                 Some (orNil (attributesDefault element) @ [\<lparr>da_name = attrName, da_value = v\<rparr>])\<rparr>,
              attr\<lparr>defaultValue := Some v\<rparr>)
           else if prefix = CHR '':'' then
             (element\<lparr>attributesForced :=
                 Some (orNil (attributesForced element) @ [\<lparr>da_name = attrName, da_value = v\<rparr>])\<rparr>,
              attr\<lparr>forcedValue := Some v\<rparr>)
           else if prefix = CHR ''<'' then
             (element, attr\<lparr>validValues := Some (makeMap v (CHR ''?''))\<rparr>)
           else ea))"

definition addAttrRule :: "string \<Rightarrow> rule_parts \<Rightarrow> error + rule_parts" where
  "addAttrRule token parts =
     (case parts of (attrs, order, element) \<Rightarrow>
      (case attrRuleRegExp token of
         None \<Rightarrow> Inr parts
       | Some matches \<Rightarrow>
           (case ar_name matches of
              None \<Rightarrow> Inl TypeError
            | Some rawName \<Rightarrow>
                (let attrName = replaceColons rawName;
                     attrType = ar_type matches;
                     element1 =
                       (if attrType = Some (CHR ''!'') then
                          element\<lparr>attributesRequired :=
                            Some (orNil (attributesRequired element) @ [attrName])\<rparr>
                        else element);
                     attr = emptyAttribute\<lparr>required := (attrType = Some (CHR ''!''))\<rparr>
                 in if attrType = Some (CHR ''-'') then
                      Inr (attrs(attrName := None),
                           splice1 (inArray order attrName) order, element1)
                    else
                      (case applyOp attrName (ar_op matches) (element1, attr) of
                         (element2, attr2) \<Rightarrow>
                           if hasPatternsRegExp attrName then
                             (case patternToRegExp attrName of
                                Inl e \<Rightarrow> Inl e
                              | Inr p \<Rightarrow>
                                  Inr (attrs, order,
                                       element2\<lparr>attributePatterns :=
                                         Some (orNil (attributePatterns element2) @
                                               [Attribute.extend attr2
                                                  (AttributePattern.fields p)])\<rparr>))
                           else
                             Inr (attrs(attrName \<mapsto> attr2),
                                  (if attrs attrName = None then order @ [attrName] else order),
                                  element2))))))"

fun addAttrRules :: "string list \<Rightarrow> rule_parts \<Rightarrow> error + rule_parts" where
  "addAttrRules [] parts = Inr parts"
| "addAttrRules (token # tokens) parts =
     (case addAttrRule token parts of
        Inl e \<Rightarrow> Inl e
      | Inr parts' \<Rightarrow> addAttrRules tokens parts')"

text \<open>
  The global rule as the loop over the element rules holds it: the variables
  \<open>globalAttributes\<close> and \<open>globalAttributesOrder\<close>.
\<close>

type_synonym globals = "(string \<rightharpoonup> Attribute) option \<times> string list option"

text \<open>
  The start of a new rule (lines 530 to 560): the flags of the prefix, and the copy of the
  global rule when there is one.
\<close>

definition newRule :: "elementRuleMatch \<Rightarrow> globals \<Rightarrow> rule_parts" where
  "newRule matches g =
     (case fst g of
        None \<Rightarrow> Map.empty
      | Some ga \<Rightarrow> ga,
      case fst g of
        None \<Rightarrow> []
      | Some ga \<Rightarrow> orNil (snd g),
      emptyElement\<lparr>paddEmpty := (er_prefix matches = Some (CHR ''#'')),
                   removeEmpty := (er_prefix matches = Some (CHR ''-'')),
                   removeEmptyAttrs := (er_bang matches = Some ''!'')\<rparr>)"

text \<open>
  The end of a rule (lines 627 to 645): the rule is stored under its output name, when it
  has one, and under its own name or among the patterns.
\<close>

definition storeRule :: "elementRuleMatch \<Rightarrow> SchemaElement \<Rightarrow> schema_state \<Rightarrow> error + schema_state" where
  "storeRule matches element st =
     (let elementName = er_elementName matches;
          element1 = (case er_outputName matches of
                        None \<Rightarrow> element
                      | Some out \<Rightarrow> element\<lparr>outputName := Some elementName\<rparr>);
          underOutputName = (\<lambda>e. case er_outputName matches of
                                    None \<Rightarrow> elements st
                                  | Some out \<Rightarrow> (elements st)(out \<mapsto> e))
      in if hasPatternsRegExp elementName then
           (case patternToRegExp elementName of
              Inl e \<Rightarrow> Inl e
            | Inr p \<Rightarrow>
                Inr (st\<lparr>elements := underOutputName (element1\<lparr>pattern := Some p\<rparr>),
                        patternElements := patternElements st @ [element1\<lparr>pattern := Some p\<rparr>]\<rparr>))
         else Inr (st\<lparr>elements := (underOutputName element1)(elementName \<mapsto> element1)\<rparr>))"

text \<open>The body of the loop over the element rules (lines 520 to 646).\<close>

definition addElementRule :: "string \<Rightarrow> globals \<times> schema_state \<Rightarrow> error + globals \<times> schema_state" where
  "addElementRule rule gst =
     (case gst of (g, st) \<Rightarrow>
      (case elementRuleRegExp rule of
         None \<Rightarrow> Inr gst
       | Some matches \<Rightarrow>
           (case (case er_attrData matches of
                    None \<Rightarrow> Inr (newRule matches g)
                  | Some attrData \<Rightarrow> addAttrRules (split attrData (CHR ''|'')) (newRule matches g)) of
              Inl e \<Rightarrow> Inl e
            | Inr (attrs, order, element) \<Rightarrow>
                (case storeRule matches
                        (element\<lparr>attributes := Some attrs, attributesOrder := Some order\<rparr>) st of
                   Inl e \<Rightarrow> Inl e
                 | Inr st' \<Rightarrow>
                     Inr (if fst g = None \<and> er_elementName matches = ''@''
                          then (Some attrs, Some order) else g,
                          st')))))"

fun addElementRules :: "string list \<Rightarrow> globals \<times> schema_state \<Rightarrow> error + globals \<times> schema_state" where
  "addElementRules [] gst = Inr gst"
| "addElementRules (rule # rules) gst =
     (case addElementRule rule gst of
        Inl e \<Rightarrow> Inl e
      | Inr gst' \<Rightarrow> addElementRules rules gst')"

text \<open>The global rule at the start of a call (lines 513 to 516).\<close>

definition initialGlobals :: "schema_state \<Rightarrow> globals" where
  "initialGlobals st =
     (case elements st ''@'' of
        None \<Rightarrow> (None, None)
      | Some e \<Rightarrow> (attributes e, attributesOrder e))"

text \<open>\<open>addValidElements(validElements)\<close> (lines 502 to 649).\<close>

definition addValidElements :: "string \<Rightarrow> schema_state \<Rightarrow> error + schema_state" where
  "addValidElements validElements st =
     (if validElements = [] then Inr st
      else
        (case addElementRules (split validElements (CHR '','')) (initialGlobals st, st) of
           Inl e \<Rightarrow> Inl e
         | Inr (g, st') \<Rightarrow> Inr st'))"

text \<open>\<open>setValidElements(validElements)\<close> (lines 651 to 660).\<close>

definition setValidElements :: "string \<Rightarrow> schema_state \<Rightarrow> error + schema_state" where
  "setValidElements validElements st =
     (case addValidElements validElements (st\<lparr>elements := Map.empty, patternElements := []\<rparr>) of
        Inl e \<Rightarrow> Inl e
      | Inr st' \<Rightarrow>
          Inr (st'\<lparr>children :=
                 fold (\<lambda>item ch. AList.update (fst item) (snd item) ch) (schemaItems st')
                   (children st')\<rparr>))"

subsection \<open>addCustomElements\<close>

text \<open>
  The clone of line 689 to 691: \<open>extend({}, customRule)\<close> without the two flags. The clone
  of a missing rule is the object \<open>{}\<close>.
\<close>

definition cloneRule :: "SchemaElement option \<Rightarrow> SchemaElement" where
  "cloneRule customRule =
     (case customRule of
        None \<Rightarrow> emptyElement
      | Some e \<Rightarrow> e\<lparr>removeEmptyAttrs := False, removeEmpty := False\<rparr>)"

text \<open>
  The body of the loop of lines 697 to 702 for one key of \<open>children\<close>: a set that holds
  the clone source is replaced by a copy that holds the new name too.
\<close>

definition addAtClonePosition :: "string \<Rightarrow> string \<Rightarrow> string \<Rightarrow> schema_state \<Rightarrow> schema_state" where
  "addAtClonePosition cloneName name elmName st =
     (case map_of (children st) elmName of
        None \<Rightarrow> st
      | Some r \<Rightarrow>
          if cloneName \<in> childSets st r then
            st\<lparr>children := AList.update elmName (nextRef st) (children st),
               childSets := (childSets st)(nextRef st := insert name (childSets st r)),
               nextRef := Suc (nextRef st)\<rparr>
          else st)"

text \<open>
  The body of the loop of lines 670 to 703 for one rule. The expression of line 671 can
  fail to match, and line 672 then reads a group of \<open>null\<close>. When \<open>children\<close> has no entry
  for the clone source, line 676 stores \<open>undefined\<close> under the new name and the loop of
  line 697 reads a property of it.
\<close>

definition addCustomElement :: "string \<Rightarrow> schema_state \<Rightarrow> error + schema_state" where
  "addCustomElement rule st =
     (case customElementRegExp rule of
        None \<Rightarrow> Inl TypeError
      | Some (inline, name) \<Rightarrow>
          (let cloneName = (if inline then ''span'' else ''div'') in
           case map_of (children st) cloneName of
             None \<Rightarrow> Inl TypeError
           | Some r \<Rightarrow>
               (let st1 = st\<lparr>children := AList.update name r (children st),
                              customElementsMap := (customElementsMap st)(name \<mapsto> cloneName),
                              blockElementsMap :=
                                (if inline then blockElementsMap st
                                 else insert name (insert (toUpperCase name) (blockElementsMap st))),
                              elements :=
                                (if elements st name = None
                                 then (elements st)(name \<mapsto> cloneRule (elements st cloneName))
                                 else elements st)\<rparr>
                in Inr (fold (addAtClonePosition cloneName name) (map fst (children st1)) st1))))"

fun addCustomElementRules :: "string list \<Rightarrow> schema_state \<Rightarrow> error + schema_state" where
  "addCustomElementRules [] st = Inr st"
| "addCustomElementRules (rule # rules) st =
     (case addCustomElement rule st of
        Inl e \<Rightarrow> Inl e
      | Inr st' \<Rightarrow> addCustomElementRules rules st')"

text \<open>
  \<open>addCustomElements(customElements)\<close> (lines 663 to 705). Line 668 only empties two slots
  of the process-wide cache.
\<close>

definition addCustomElements :: "string \<Rightarrow> schema_state \<Rightarrow> error + schema_state" where
  "addCustomElements customElements st =
     (if customElements = [] then Inr st
      else addCustomElementRules (split customElements (CHR '','')) st)"

subsection \<open>addValidChildren\<close>

text \<open>
  The body of the loop of lines 732 to 738 for one child: the set of the parent is changed
  in place; without a set, both the deletion and the assignment are a TypeError.
\<close>

definition setChild :: "string \<Rightarrow> string \<Rightarrow> string \<Rightarrow> schema_state \<Rightarrow> error + schema_state" where
  "setChild prefix parentName child st =
     (case map_of (children st) parentName of
        None \<Rightarrow> Inl TypeError
      | Some r \<Rightarrow>
          Inr (st\<lparr>childSets := (childSets st)
                 (r := (if prefix = ''-'' then childSets st r - {child}
                        else insert child (childSets st r)))\<rparr>))"

fun setChildren :: "string \<Rightarrow> string \<Rightarrow> string list \<Rightarrow> schema_state \<Rightarrow> error + schema_state" where
  "setChildren prefix parentName [] st = Inr st"
| "setChildren prefix parentName (child # rest) st =
     (case setChild prefix parentName child st of
        Inl e \<Rightarrow> Inl e
      | Inr st' \<Rightarrow> setChildren prefix parentName rest st')"

text \<open>
  The body of the loop of lines 716 to 740 for one rule; without a prefix the parent gets
  a new set that holds \<open>#comment\<close>.
\<close>

definition addValidChildrenRule :: "string \<Rightarrow> schema_state \<Rightarrow> error + schema_state" where
  "addValidChildrenRule rule st =
     (case childRuleRegExp rule of
        None \<Rightarrow> Inr st
      | Some (prefix, parentName, childNames) \<Rightarrow>
          setChildren prefix parentName (split childNames (CHR ''|''))
            (if prefix \<noteq> [] then st
             else st\<lparr>children := AList.update parentName (nextRef st) (children st),
                     childSets := (childSets st)(nextRef st := {''#comment''}),
                     nextRef := Suc (nextRef st)\<rparr>))"

fun addValidChildrenRules :: "string list \<Rightarrow> schema_state \<Rightarrow> error + schema_state" where
  "addValidChildrenRules [] st = Inr st"
| "addValidChildrenRules (rule # rules) st =
     (case addValidChildrenRule rule st of
        Inl e \<Rightarrow> Inl e
      | Inr st' \<Rightarrow> addValidChildrenRules rules st')"

text \<open>
  \<open>addValidChildren(validChildren)\<close> (lines 708 to 742). Line 713 only empties a slot of
  the process-wide cache.
\<close>

definition addValidChildren :: "string \<Rightarrow> schema_state \<Rightarrow> error + schema_state" where
  "addValidChildren validChildren st =
     (if validChildren = [] then Inr st
      else addValidChildrenRules (split validChildren (CHR '','')) st)"

subsection \<open>The queries\<close>

text \<open>
  The loop of lines 753 to 760, with \<open>i\<close> the number of patterns still to try: the pattern
  at \<open>i - 1\<close> is tried next. Reading the \<open>pattern\<close> of an entry that has none is a
  TypeError.
\<close>

fun tryPatterns :: "SchemaElement list \<Rightarrow> nat \<Rightarrow> string \<Rightarrow> error + SchemaElement option" where
  "tryPatterns ps 0 name = Inr None"
| "tryPatterns ps (Suc i) name =
     (if i < length ps then
        (case pattern (ps ! i) of
           None \<Rightarrow> Inl TypeError
         | Some p \<Rightarrow> if rx_test p name then Inr (Some (ps ! i)) else tryPatterns ps i name)
      else Inl TypeError)"

text \<open>\<open>getElementRule(name)\<close> (lines 744 to 761); \<open>Inr None\<close> is the result \<open>undefined\<close>.\<close>

definition getElementRule :: "schema_state \<Rightarrow> string \<Rightarrow> error + SchemaElement option" where
  "getElementRule st name =
     (case elements st name of
        Some element \<Rightarrow> Inr (Some element)
      | None \<Rightarrow> tryPatterns (patternElements st) (length (patternElements st)) name)"

text \<open>\<open>isValidChild(name, child)\<close> (lines 980 to 983).\<close>

definition isValidChild :: "schema_state \<Rightarrow> string \<Rightarrow> string \<Rightarrow> bool" where
  "isValidChild st name child =
     (case map_of (children st) (toLowerCase name) of
        None \<Rightarrow> False
      | Some parent \<Rightarrow> toLowerCase child \<in> childSets st parent)"

text \<open>
  The loop of lines 1009 to 1014, with \<open>i\<close> the number of attribute patterns still to try.
  Line 1011 tests the pattern against \<open>name\<close>, the name of the element.
\<close>

fun tryAttrPatterns :: "AttributePattern list \<Rightarrow> nat \<Rightarrow> string \<Rightarrow> error + bool" where
  "tryAttrPatterns attrPatterns 0 name = Inr False"
| "tryAttrPatterns attrPatterns (Suc i) name =
     (if i < length attrPatterns then
        (if rx_test (attr_pattern (attrPatterns ! i)) name then Inr True
         else tryAttrPatterns attrPatterns i name)
      else Inl TypeError)"

text \<open>
  \<open>isValid(name, attr)\<close> (lines 994 to 1023); the attribute is \<open>None\<close> when the call gives
  none. The empty string is falsy, so line 1000 treats it as no attribute.
\<close>

definition isValid :: "schema_state \<Rightarrow> string \<Rightarrow> string option \<Rightarrow> error + bool" where
  "isValid st name attr =
     (case getElementRule st name of
        Inl e \<Rightarrow> Inl e
      | Inr None \<Rightarrow> Inr False
      | Inr (Some rule) \<Rightarrow>
          (case attr of
             None \<Rightarrow> Inr True
           | Some a \<Rightarrow>
               if a = [] then Inr True
               else
                 (case attributes rule of
                    None \<Rightarrow> Inl TypeError
                  | Some attrs \<Rightarrow>
                      if attrs a \<noteq> None then Inr True
                      else
                        (case attributePatterns rule of
                           None \<Rightarrow> Inr False
                         | Some attrPatterns \<Rightarrow>
                             tryAttrPatterns attrPatterns (length attrPatterns) name))))"

text \<open>\<open>getBlockElements()\<close> (line 901).\<close>

definition getBlockElements :: "schema_state \<Rightarrow> string set" where
  "getBlockElements st = blockElementsMap st"

subsection \<open>The constructor\<close>

text \<open>
  \<open>String.prototype.split(/[, ]/)\<close>: the string is split at every comma and every space.
\<close>

fun js_split_comma_space :: "string \<Rightarrow> string list" where
  "js_split_comma_space [] = [[]]"
| "js_split_comma_space (c # cs) =
     (if c = CHR '','' \<or> c = CHR '' '' then [] # js_split_comma_space cs
      else (case js_split_comma_space cs of [] \<Rightarrow> [[c]] | w # ws \<Rightarrow> (c # w) # ws))"

text \<open>
  \<open>createLookupTable(option, defaultValue, extendWith)\<close> (lines 437 to 456), with
  \<open>makeMap\<close> and \<open>extend\<close> of Tools as above: a name set holds every name in the given case
  and in upper case. The value of the option is \<open>None\<close> for \<open>undefined\<close>. A default table
  is built from the default value whether the process-wide cache holds it or not: the
  cache holds the same value.
\<close>

definition createLookupTable :: "string option \<Rightarrow> string \<Rightarrow> string set \<Rightarrow> string set" where
  "createLookupTable option defaultNames extendWith =
     (if option = None \<or> option = Some [] then
        set (js_split (CHR '' '') defaultNames) \<union>
        set (js_split (CHR '' '') (toUpperCase defaultNames)) \<union> extendWith
      else
        set (js_split_comma_space (orNil option)) \<union>
        set (js_split_comma_space (toUpperCase (orNil option))))"

definition textBlockElementsDefault :: string where
  "textBlockElementsDefault =
     ''h1 h2 h3 h4 h5 h6 p div address pre form '' @
     ''blockquote center dir fieldset header footer article section hgroup aside main nav figure''"

definition blockElementsDefault :: string where
  "blockElementsDefault =
     ''hr table tbody thead tfoot '' @
     ''th tr td li ol ul caption dl dt dd noscript menu isindex option '' @
     ''datalist select optgroup figcaption details summary''"

text \<open>
  The instance before the constructor fills it (lines 431 to 434, 459 and 485 to 489). Each
  entry of the compiled table has a set of children of its own; its reference is the
  position of the entry.
\<close>

definition newInstance :: "SchemaSettings \<Rightarrow> schema \<Rightarrow> schema_state" where
  "newInstance settings items =
     \<lparr>elements = Map.empty,
      children = [],
      childSets = (\<lambda>r. if r < length items then item_children (snd (items ! r)) else {}),
      nextRef = length items,
      patternElements = [],
      customElementsMap = Map.empty,
      blockElementsMap =
        createLookupTable (block_elements settings) blockElementsDefault
          (createLookupTable (text_block_elements settings) textBlockElementsDefault {}),
      schemaItems = zip (map fst items) [0 ..< length items]\<rparr>"

text \<open>
  Lines 765 to 772: without \<open>valid_elements\<close>, every entry of the compiled table becomes a
  rule with the attributes of the entry, and a key of \<open>children\<close>.
\<close>

definition cloneSchemaItems :: "schema \<Rightarrow> schema_state \<Rightarrow> schema_state" where
  "cloneSchemaItems items st =
     st\<lparr>elements :=
          fold (\<lambda>item els.
                  els(fst item \<mapsto>
                    emptyElement\<lparr>attributes := Some (item_attributes (snd item)),
                                 attributesOrder := Some (item_attributesOrder (snd item))\<rparr>))
               items (elements st),
        children :=
          fold (\<lambda>item ch. AList.update (fst item) (snd item) ch) (schemaItems st) (children st)\<rparr>"

text \<open>
  A write into a field of \<open>elements[name]\<close>; it is a TypeError when there is no such rule
  (lines 778, 794 and 799).
\<close>

definition updateRule :: "(SchemaElement \<Rightarrow> SchemaElement) \<Rightarrow> string \<Rightarrow> schema_state \<Rightarrow> error + schema_state" where
  "updateRule f name st =
     (case elements st name of
        None \<Rightarrow> Inl TypeError
      | Some e \<Rightarrow> Inr (st\<lparr>elements := (elements st)(name \<mapsto> f e)\<rparr>))"

fun updateRules :: "(SchemaElement \<Rightarrow> SchemaElement) \<Rightarrow> string list \<Rightarrow> schema_state \<Rightarrow> error + schema_state" where
  "updateRules f [] st = Inr st"
| "updateRules f (name # names) st =
     (case updateRule f name st of
        Inl e \<Rightarrow> Inl e
      | Inr st' \<Rightarrow> updateRules f names st')"

text \<open>Lines 786 to 790: the same write, made only when the rule exists.\<close>

definition updateRuleIfPresent :: "(SchemaElement \<Rightarrow> SchemaElement) \<Rightarrow> string \<Rightarrow> schema_state \<Rightarrow> schema_state" where
  "updateRuleIfPresent f name st =
     (case elements st name of
        None \<Rightarrow> st
      | Some e \<Rightarrow> st\<lparr>elements := (elements st)(name \<mapsto> f e)\<rparr>)"

text \<open>Lines 776 to 779: \<open>b\<close> and \<open>i\<close> get the output names \<open>strong\<close> and \<open>em\<close>.\<close>

fun setOutputNames :: "string list \<Rightarrow> schema_state \<Rightarrow> error + schema_state" where
  "setOutputNames [] st = Inr st"
| "setOutputNames (item # rest) st =
     (case split item (CHR ''/'') of
        out # name # _ \<Rightarrow>
          (case updateRule (\<lambda>e. e\<lparr>outputName := Some out\<rparr>) name st of
             Inl e \<Rightarrow> Inl e
           | Inr st' \<Rightarrow> setOutputNames rest st')
      | _ \<Rightarrow> Inl TypeError)"

text \<open>The branch of lines 763 to 806, taken without \<open>valid_elements\<close>.\<close>

definition defaultElements :: "SchemaSettings \<Rightarrow> schema \<Rightarrow> schema_state \<Rightarrow> error + schema_state" where
  "defaultElements settings items st =
     (case (if schema settings \<noteq> Some Html5
            then setOutputNames (split ''strong/b em/i'' (CHR '' '')) (cloneSchemaItems items st)
            else Inr (cloneSchemaItems items st)) of
        Inl e \<Rightarrow> Inl e
      | Inr st1 \<Rightarrow>
          (case updateRules (\<lambda>e. e\<lparr>paddEmpty := True\<rparr>)
                  (split ''p h1 h2 h3 h4 h5 h6 th td pre div address caption li'' (CHR '' ''))
                  (fold (updateRuleIfPresent (\<lambda>e. e\<lparr>removeEmpty := True\<rparr>))
                     (split ''ol ul sub sup blockquote span font a table tbody strong em b i''
                        (CHR '' ''))
                     st1) of
             Inl e \<Rightarrow> Inl e
           | Inr st2 \<Rightarrow>
               updateRules (\<lambda>e. e\<lparr>removeEmptyAttrs := True\<rparr>) (split ''span'' (CHR '' '')) st2))"

text \<open>
  Modelled from the spec: \<open>Tools.explode\<close> is not under src/. \<open>explode(s)\<close> splits the
  string at the commas and trims every item.
\<close>

definition explode :: "string \<Rightarrow> string list" where
  "explode s = map trim (js_split (CHR '','') s)"

text \<open>Lines 839 to 845.\<close>

definition deleteInvalidElements :: "string option \<Rightarrow> schema_state \<Rightarrow> schema_state" where
  "deleteInvalidElements invalid st =
     (if invalid = None \<or> invalid = Some [] then st
      else st\<lparr>elements := fold (\<lambda>item els. els(item := None)) (explode (orNil invalid)) (elements st)\<rparr>)"

text \<open>Lines 847 to 850.\<close>

definition allowInternalSpans :: "schema_state \<Rightarrow> error + schema_state" where
  "allowInternalSpans st =
     (case getElementRule st ''span'' of
        Inl e \<Rightarrow> Inl e
      | Inr None \<Rightarrow> addValidElements ''span[!data-mce-type|*]'' st
      | Inr (Some rule) \<Rightarrow> Inr st)"

text \<open>
  The constructor up to line 845: the instance before the last step. The calls of lines
  811 to 816 get the empty string for a setting that is \<open>undefined\<close>; the three functions
  treat both alike.
\<close>

definition constructRules :: "SchemaSettings \<Rightarrow> error + schema_state" where
  "constructRules settings =
     (case compileSchema (schema settings) of
        Inl e \<Rightarrow> Inl e
      | Inr items \<Rightarrow>
          (let validElements =
                 (if verify_html settings = Some False then ''*[*]''
                  else orNil (valid_elements settings))
           in case (if validElements = [] then defaultElements settings items (newInstance settings items)
                    else setValidElements validElements (newInstance settings items)) of
                Inl e \<Rightarrow> Inl e
              | Inr st1 \<Rightarrow>
                  (case addCustomElements (orNil (custom_elements settings)) st1 of
                     Inl e \<Rightarrow> Inl e
                   | Inr st2 \<Rightarrow>
                       (case addValidChildren (orNil (valid_children settings)) st2 of
                          Inl e \<Rightarrow> Inl e
                        | Inr st3 \<Rightarrow>
                            (case addValidElements (orNil (extended_valid_elements settings)) st3 of
                               Inl e \<Rightarrow> Inl e
                             | Inr st4 \<Rightarrow>
                                 (case addValidChildren ''+ol[ul|ol],+ul[ul|ol]'' st4 of
                                    Inl e \<Rightarrow> Inl e
                                  | Inr st5 \<Rightarrow>
                                      Inr (deleteInvalidElements (invalid_elements settings) st5)))))))"

text \<open>\<open>Schema(settings)\<close> (lines 430 to 1100): the instance when the constructor returns.\<close>

definition Schema :: "SchemaSettings \<Rightarrow> error + schema_state" where
  "Schema settings =
     (case constructRules settings of
        Inl e \<Rightarrow> Inl e
      | Inr st \<Rightarrow> allowInternalSpans st)"

text \<open>The settings object \<open>{}\<close>.\<close>

definition noSettings :: SchemaSettings where
  "noSettings =
     \<lparr>block_elements = None, custom_elements = None, extended_valid_elements = None,
      invalid_elements = None, schema = None, text_block_elements = None,
      valid_children = None, valid_elements = None, verify_html = None\<rparr>"

section \<open>Properties\<close>

subsection \<open>Results that are not errors\<close>

lemma isr_obtain: "\<not> isl x \<Longrightarrow> \<exists>y. x = Inr y"
  by (cases x) simp_all
subsection \<open>Association lists\<close>

lemma update_same: "map_of al k = Some v \<Longrightarrow> AList.update k v al = al"
  by (induction al) (auto split: if_splits)

lemma keys_update: "fst ` set (AList.update k v al) = insert k (fst ` set al)"
  by (simp add: dom_update)

subsection \<open>The table after the calls of add and addAttrs\<close>

definition newItem :: "string \<Rightarrow> string \<Rightarrow> string \<Rightarrow> schema_item" where
  "newItem attrs ch ga =
     \<lparr>item_attributes = arrayToMap (split (join2 ga attrs) (CHR '' '')),
      item_attributesOrder = split (join2 ga attrs) (CHR '' ''),
      item_children = set (split ch (CHR '' ''))\<rparr>"

definition extendItem :: "string list \<Rightarrow> schema_item \<Rightarrow> schema_item" where
  "extendItem as item =
     item\<lparr>item_attributes := fold (\<lambda>a m. m(a \<mapsto> emptyAttribute)) as (item_attributes item),
          item_attributesOrder := item_attributesOrder item @ as\<rparr>"

lemma fold_update_item:
  "map_of (fold (\<lambda>n sch. AList.update n v sch) ns sch) k = (if k \<in> set ns then Some v else map_of sch k)"
  by (induction ns arbitrary: sch) (auto simp: update_conv')

lemma fold_update_keys:
  "fst ` set (fold (\<lambda>n sch. AList.update n v sch) ns sch) = set ns \<union> fst ` set sch"
  by (induction ns arbitrary: sch) (auto simp: keys_update)

lemma fold_update_distinct:
  "distinct (map fst sch) \<Longrightarrow> distinct (map fst (fold (\<lambda>n sch. AList.update n v sch) ns sch))"
  by (induction ns arbitrary: sch) (auto simp: distinct_update)

lemma map_of_add:
  "map_of (add name attrs ch ga sch) k =
     (if k \<in> set (split name (CHR '' '')) then Some (newItem attrs ch ga) else map_of sch k)"
  by (simp add: add_def newItem_def fold_update_item)

lemma keys_add: "fst ` set (add name attrs ch ga sch) = set (split name (CHR '' '')) \<union> fst ` set sch"
  by (simp add: add_def fold_update_keys)

lemma distinct_add: "distinct (map fst sch) \<Longrightarrow> distinct (map fst (add name attrs ch ga sch))"
  by (simp add: add_def fold_update_distinct)

lemma addAttrsTo_present:
  "map_of sch n = Some item \<Longrightarrow>
   addAttrsTo as n sch = Inr (AList.update n (extendItem as item) sch)"
proof (induction as arbitrary: sch item)
  case Nil
  then show ?case by (simp add: extendItem_def update_same)
next
  case (Cons a as)
  let ?item = "item\<lparr>item_attributes := (item_attributes item)(a \<mapsto> emptyAttribute),
                      item_attributesOrder := item_attributesOrder item @ [a]\<rparr>"
  have "map_of (AList.update n ?item sch) n = Some ?item"
    by (simp add: update_conv')
  from Cons.IH [OF this] Cons.prems show ?case
    by (simp add: extendItem_def)
qed

lemma addAttrsTo_absent:
  "map_of sch n = None \<Longrightarrow> as \<noteq> [] \<Longrightarrow> addAttrsTo as n sch = Inl TypeError"
  by (cases as) simp_all

text \<open>What one call makes of the entry of a key.\<close>

fun itemAfterCall :: "string \<Rightarrow> string \<Rightarrow> call \<Rightarrow> schema_item option \<Rightarrow> schema_item option" where
  "itemAfterCall ga k (Add name attrs ch) cur =
     (if k \<in> set (split name (CHR '' '')) then Some (newItem attrs ch ga) else cur)"
| "itemAfterCall ga k (AddAttrs name attrs) cur =
     fold (\<lambda>n c. if n = k then map_option (extendItem (split attrs (CHR '' ''))) c else c)
       (rev (split name (CHR '' ''))) cur"

fun itemAfterCalls :: "string \<Rightarrow> string \<Rightarrow> call list \<Rightarrow> schema_item option \<Rightarrow> schema_item option" where
  "itemAfterCalls ga k [] cur = cur"
| "itemAfterCalls ga k (c # cs) cur = itemAfterCalls ga k cs (itemAfterCall ga k c cur)"

text \<open>Whether the calls find every element they extend, given the names present.\<close>

fun callDefined :: "call \<Rightarrow> string set \<Rightarrow> bool" where
  "callDefined (Add name attrs ch) D = True"
| "callDefined (AddAttrs name attrs) D =
     (split attrs (CHR '' '') = [] \<or> set (split name (CHR '' '')) \<subseteq> D)"

fun declaredBy :: "call \<Rightarrow> string set" where
  "declaredBy (Add name attrs ch) = set (split name (CHR '' ''))"
| "declaredBy (AddAttrs name attrs) = {}"

fun callsDefined :: "call list \<Rightarrow> string set \<Rightarrow> bool" where
  "callsDefined [] D = True"
| "callsDefined (c # cs) D = (callDefined c D \<and> callsDefined cs (D \<union> declaredBy c))"

lemma addAttrsNames_ok:
  "as = [] \<or> set ns \<subseteq> fst ` set sch \<Longrightarrow> distinct (map fst sch) \<Longrightarrow>
   \<exists>sch'. addAttrsNames ns as sch = Inr sch' \<and> fst ` set sch' = fst ` set sch \<and>
          distinct (map fst sch') \<and>
          (\<forall>k. map_of sch' k =
                fold (\<lambda>n c. if n = k then map_option (extendItem as) c else c) ns (map_of sch k))"
proof (induction ns arbitrary: sch)
  case Nil
  then show ?case by simp
next
  case (Cons n ns)
  show ?case
  proof (cases "as = []")
    case True
    have "addAttrsTo [] n sch = Inr sch" by simp
    moreover from Cons.IH [of sch] True Cons.prems obtain sch' where
      "addAttrsNames ns as sch = Inr sch'" "fst ` set sch' = fst ` set sch" "distinct (map fst sch')"
      "\<forall>k. map_of sch' k = fold (\<lambda>n c. if n = k then map_option (extendItem as) c else c) ns (map_of sch k)"
      by blast
    moreover have "map_option (extendItem []) c = c" for c
      by (cases c) (simp_all add: extendItem_def)
    ultimately show ?thesis using True by simp
  next
    case False
    with Cons.prems have "n \<in> fst ` set sch" by auto
    then obtain item where item: "map_of sch n = Some item"
      by (metis domD dom_map_of_conv_image_fst)
    let ?sch = "AList.update n (extendItem as item) sch"
    have 1: "addAttrsTo as n sch = Inr ?sch" by (rule addAttrsTo_present [OF item])
    have keys: "fst ` set ?sch = fst ` set sch" using \<open>n \<in> fst ` set sch\<close> by (auto simp: keys_update)
    have "as = [] \<or> set ns \<subseteq> fst ` set ?sch" using Cons.prems keys by auto
    moreover have "distinct (map fst ?sch)" using Cons.prems by (simp add: distinct_update)
    ultimately obtain sch' where 2: "addAttrsNames ns as ?sch = Inr sch'" "fst ` set sch' = fst ` set ?sch"
      "distinct (map fst sch')"
      "\<forall>k. map_of sch' k = fold (\<lambda>n c. if n = k then map_option (extendItem as) c else c) ns (map_of ?sch k)"
      using Cons.IH [of ?sch] by blast
    have "map_of ?sch k = (if n = k then map_option (extendItem as) (map_of sch k) else map_of sch k)" for k
      using item by (auto simp: update_conv')
    with 1 2 keys show ?thesis by simp
  qed
qed

lemma runCall_ok:
  assumes "callDefined c (fst ` set sch)" "distinct (map fst sch)"
  shows "\<exists>sch'. runCall ga c sch = Inr sch' \<and> fst ` set sch' = fst ` set sch \<union> declaredBy c \<and>
          distinct (map fst sch') \<and> (\<forall>k. map_of sch' k = itemAfterCall ga k c (map_of sch k))"
proof (cases c)
  case (Add name attrs ch)
  then show ?thesis using assms by (auto simp: keys_add distinct_add map_of_add)
next
  case (AddAttrs name attrs)
  with assms have "split attrs (CHR '' '') = [] \<or> set (rev (split name (CHR '' ''))) \<subseteq> fst ` set sch"
    by auto
  from addAttrsNames_ok [OF this assms(2)] AddAttrs show ?thesis
    by (auto simp: addAttrs_def)
qed

lemma runCalls_ok:
  "callsDefined cs (fst ` set sch) \<Longrightarrow> distinct (map fst sch) \<Longrightarrow>
   \<exists>sch'. runCalls ga cs sch = Inr sch' \<and> distinct (map fst sch') \<and>
          fst ` set sch' = fst ` set sch \<union> \<Union> (declaredBy ` set cs) \<and>
          (\<forall>k. map_of sch' k = itemAfterCalls ga k cs (map_of sch k))"
proof (induction cs arbitrary: sch)
  case Nil
  then show ?case by simp
next
  case (Cons c cs)
  from Cons.prems have "callDefined c (fst ` set sch)" by simp
  from runCall_ok [OF this Cons.prems(2), of ga] obtain s1 where
    1: "runCall ga c sch = Inr s1" "fst ` set s1 = fst ` set sch \<union> declaredBy c"
       "distinct (map fst s1)" "\<forall>k. map_of s1 k = itemAfterCall ga k c (map_of sch k)"
    by blast
  from Cons.prems 1 have "callsDefined cs (fst ` set s1)" by simp
  from Cons.IH [OF this 1(3)] obtain s2 where
    2: "runCalls ga cs s1 = Inr s2" "distinct (map fst s2)"
       "fst ` set s2 = fst ` set s1 \<union> \<Union> (declaredBy ` set cs)"
       "\<forall>k. map_of s2 k = itemAfterCalls ga k cs (map_of s1 k)"
    by blast
  from 1 2 show ?case by auto
qed


lemma callDefined_mono: "callDefined c D \<Longrightarrow> D \<subseteq> D' \<Longrightarrow> callDefined c D'"
  by (cases c) auto

lemma callsDefined_each: "\<forall>c\<in>set cs. callDefined c D \<Longrightarrow> callsDefined cs D"
proof (induction cs arbitrary: D)
  case Nil
  show ?case by simp
next
  case (Cons c cs)
  have "\<forall>c'\<in>set cs. callDefined c' (D \<union> declaredBy c)"
    using Cons.prems by (auto intro: callDefined_mono)
  with Cons show ?case by simp
qed

lemma callsDefined_append:
  "callsDefined (A @ B) D = (callsDefined A D \<and> callsDefined B (D \<union> \<Union> (declaredBy ` set A)))"
  by (induction A arbitrary: D) (auto simp: Un_assoc)

lemma itemAfterCalls_append:
  "itemAfterCalls ga k (A @ B) cur = itemAfterCalls ga k B (itemAfterCalls ga k A cur)"
  by (induction A arbitrary: cur) auto

lemma fold_map_option_None:
  "(fold (\<lambda>n c. if n = k then map_option f c else c) ns cur = None) = (cur = None)"
  by (induction ns arbitrary: cur) auto

lemma itemAfterCall_None:
  "(itemAfterCall ga k c cur = None) = (cur = None \<and> k \<notin> declaredBy c)"
  by (cases c) (auto simp: fold_map_option_None)

lemma itemAfterCalls_None:
  "(itemAfterCalls ga k cs cur = None) = (cur = None \<and> k \<notin> \<Union> (declaredBy ` set cs))"
  by (induction cs arbitrary: cur) (auto simp: itemAfterCall_None)

text \<open>The list versions, which evaluate.\<close>

fun declaredNames :: "call list \<Rightarrow> string list" where
  "declaredNames [] = []"
| "declaredNames (Add name attrs ch # cs) = split name (CHR '' '') @ declaredNames cs"
| "declaredNames (AddAttrs name attrs # cs) = declaredNames cs"

fun extendedNames :: "call list \<Rightarrow> string list" where
  "extendedNames [] = []"
| "extendedNames (Add name attrs ch # cs) = extendedNames cs"
| "extendedNames (AddAttrs name attrs # cs) =
     (if split attrs (CHR '' '') = [] then [] else split name (CHR '' '')) @ extendedNames cs"

lemma set_declaredNames: "set (declaredNames cs) = \<Union> (declaredBy ` set cs)"
  by (induction cs rule: declaredNames.induct) auto

lemma extendedNames_defined:
  "set (extendedNames cs) \<subseteq> D \<Longrightarrow> \<forall>c\<in>set cs. callDefined c D"
  by (induction cs rule: extendedNames.induct) (auto split: if_splits)

lemma adds_defined: "extendedNames cs = [] \<Longrightarrow> callsDefined cs D"
  by (rule callsDefined_each) (rule extendedNames_defined, simp)

subsection \<open>The clean-up of the table\<close>

definition dropChildren :: "string set \<Rightarrow> schema_item \<Rightarrow> schema_item" where
  "dropChildren S item = item\<lparr>item_children := item_children item - S\<rparr>"

lemma dropChildren_empty [simp]: "dropChildren {} item = item"
  by (simp add: dropChildren_def)

lemma dropChildren_twice [simp]: "dropChildren S (dropChildren T item) = dropChildren (T \<union> S) item"
  by (simp add: dropChildren_def Diff_eq Int_assoc)

lemma map_of_deleteSelfChild:
  "map_of (deleteSelfChild n sch) k = map_option (dropChildren (if k = n then {n} else {})) (map_of sch k)"
  by (cases "map_of sch k") (auto simp: deleteSelfChild_def update_conv' dropChildren_def split: option.splits)

lemma keys_deleteSelfChild: "fst ` set (deleteSelfChild n sch) = fst ` set sch"
  by (auto simp: deleteSelfChild_def keys_update rev_image_eqI split: option.splits dest!: map_of_SomeD)

lemma distinct_deleteSelfChild: "distinct (map fst sch) \<Longrightarrow> distinct (map fst (deleteSelfChild n sch))"
  by (auto simp: deleteSelfChild_def distinct_update split: option.splits)

lemma fold_deleteSelfChild:
  "map_of (fold deleteSelfChild ns sch) k =
     map_option (dropChildren (if k \<in> set ns then {k} else {})) (map_of sch k) \<and>
   fst ` set (fold deleteSelfChild ns sch) = fst ` set sch \<and>
   (distinct (map fst sch) \<longrightarrow> distinct (map fst (fold deleteSelfChild ns sch)))"
proof (induction ns arbitrary: sch)
  case Nil
  show ?case by (simp add: option.map_ident)
next
  case (Cons n ns)
  show ?case
    using Cons.IH [of "deleteSelfChild n sch"]
    by (cases "map_of sch k")
       (auto simp: map_of_deleteSelfChild keys_deleteSelfChild distinct_deleteSelfChild)
qed

subsection \<open>Every schema type compiles\<close>

text \<open>
  \<open>compileSchema\<close> returns for every schema type. The entry of a key in its table is
  described by \<open>compiledItem\<close>, which follows the calls that name the key and so
  evaluates without building the table.
\<close>

lemma base_adds: "extendedNames (baseCalls t P F) = []"
  by code_simp

lemma html4_adds: "extendedNames (html4Calls P F) = []"
  by code_simp

lemma html5_adds: "extendedNames (html5Calls P F) = []"
  by code_simp

lemma html4_attr_targets:
  "list_all (\<lambda>n. n \<in> set (declaredNames (html4Calls P F) @ declaredNames (baseCalls t P F)))
     (extendedNames html4AttrCalls)"
  by code_simp

lemma html5_attr_targets:
  "list_all (\<lambda>n. n \<in> set (declaredNames (baseCalls t P F))) (extendedNames html5AttrCalls)"
  by code_simp

text \<open>The elements that the constructor writes to without a check.\<close>

definition neededKeys :: "string list" where
  "neededKeys = [''caption'', ''ol'', ''ul'', ''b'', ''i'', ''span'', ''div'',
     ''p'', ''h1'', ''h2'', ''h3'', ''h4'', ''h5'', ''h6'', ''th'', ''td'', ''pre'', ''address'', ''li'']"

lemma base_declares_needed:
  "list_all (\<lambda>n. n \<in> set (declaredNames (baseCalls t P F)) \<and> n \<noteq> ''script'') neededKeys"
  by code_simp


lemma allCalls_defined: "callsDefined (allCalls t P F) {}"
proof -
  let ?H4 = "if html4Items t then html4Calls P F else []"
  let ?H5 = "if html5Items t then html5Calls P F else []"
  let ?A4 = "if html4Items t then html4AttrCalls else []"
  let ?A5 = "if html5Items t then html5AttrCalls else []"
  let ?B = "baseCalls t P F"
  have h4: "callsDefined ?H4 D" for D by (rule adds_defined) (simp add: html4_adds)
  have b: "callsDefined ?B D" for D by (rule adds_defined) (simp add: base_adds)
  have h5: "callsDefined ?H5 D" for D by (rule adds_defined) (simp add: html5_adds)
  have a4: "callsDefined ?A4 D"
    if "html4Items t \<longrightarrow> set (declaredNames (html4Calls P F) @ declaredNames ?B) \<subseteq> D" for D
  proof (rule callsDefined_each, rule extendedNames_defined)
    show "set (extendedNames ?A4) \<subseteq> D"
      using that html4_attr_targets [of P F t] by (auto simp: list_all_iff)
  qed
  have a5: "callsDefined ?A5 D" if "set (declaredNames ?B) \<subseteq> D" for D
  proof (rule callsDefined_each, rule extendedNames_defined)
    show "set (extendedNames ?A5) \<subseteq> D"
      using that html5_attr_targets [of t P F] by (auto simp: list_all_iff)
  qed
  show ?thesis
    unfolding allCalls_def callsDefined_append
    by (intro conjI h4 b h5 a4 a5) (auto simp: set_declaredNames)
qed

text \<open>The clean-up of lines 380 to 397, seen from one key.\<close>

definition cleanItem :: "string \<Rightarrow> schema_item \<Rightarrow> schema_item" where
  "cleanItem k =
     dropChildren ((if k \<in> set (split ''a form meter progress dfn'' (CHR '' '')) then {k} else {}) \<union>
                   (if k = ''caption'' then {''table''} else {}))"

definition compiledItem :: "SchemaType option \<Rightarrow> string \<Rightarrow> schema_item option" where
  "compiledItem t k =
     (if k = ''script'' then None
      else map_option (cleanItem k)
             (itemAfterCalls (globalAttributes t) k
                (allCalls t (phrasingContent t) (flowContent t)) None))"

lemma base_declared: "set (declaredNames (baseCalls t P F)) \<subseteq> \<Union> (declaredBy ` set (allCalls t P F))"
  by (auto simp: allCalls_def set_declaredNames)

lemma needed_declared:
  "n \<in> set neededKeys \<Longrightarrow> n \<in> \<Union> (declaredBy ` set (allCalls t P F)) \<and> n \<noteq> ''script''"
  using base_declares_needed [of t P F] base_declared [of t P F]
  by (auto simp: list_all_iff)

lemma compiledItem_needed: "n \<in> set neededKeys \<Longrightarrow> compiledItem t n \<noteq> None"
  using needed_declared [of n t "phrasingContent t" "flowContent t"]
  by (simp add: compiledItem_def itemAfterCalls_None)

lemma compileSchema_ok:
  "\<exists>items. compileSchema t = Inr items \<and> distinct (map fst items) \<and>
           (\<forall>k. map_of items k = compiledItem t k)"
proof -
  let ?cs = "allCalls t (phrasingContent t) (flowContent t)"
  let ?ga = "globalAttributes t"
  have "callsDefined ?cs (fst ` set ([] :: schema))" by (simp add: allCalls_defined)
  from runCalls_ok [OF this, of ?ga] obtain sch where
    sch: "runCalls ?ga ?cs [] = Inr sch" "distinct (map fst sch)"
         "\<forall>k. map_of sch k = itemAfterCalls ?ga k ?cs None"
    by auto
  let ?deny = "split ''a form meter progress dfn'' (CHR '' '')"
  let ?s2 = "fold deleteSelfChild ?deny sch"
  note f = fold_deleteSelfChild [of ?deny sch]
  have d2: "distinct (map fst ?s2)" using f [of "[]"] sch(2) by simp
  have m2: "map_of ?s2 k = map_option (dropChildren (if k \<in> set ?deny then {k} else {})) (map_of sch k)" for k
    using f [of k] by simp
  have "''caption'' \<in> set neededKeys" by (simp add: neededKeys_def)
  from needed_declared [OF this, of t "phrasingContent t" "flowContent t"]
  have "map_of sch ''caption'' \<noteq> None" by (simp add: sch(3) itemAfterCalls_None)
  then obtain c where c: "map_of ?s2 ''caption'' = Some c" by (auto simp: m2)
  let ?s3 = "AList.update ''caption'' (c\<lparr>item_children := item_children c - {''table''}\<rparr>) ?s2"
  have 3: "deleteCaptionTable ?s2 = Inr ?s3" by (simp add: deleteCaptionTable_def c)
  have cs: "compileSchema t = Inr (AList.delete ''script'' ?s3)"
    by (simp add: compileSchema_def sch(1) 3)
  have dist: "distinct (map fst (AList.delete ''script'' ?s3))"
    using d2 by (simp add: distinct_delete distinct_update)
  have look: "map_of (AList.delete ''script'' ?s3) k = compiledItem t k" for k
  proof (cases "k = ''caption''")
    case True
    have "c\<lparr>item_children := item_children c - {''table''}\<rparr> = dropChildren {''table''} c"
      by (simp add: dropChildren_def)
    with c True show ?thesis
      by (auto simp: delete_conv' update_conv' compiledItem_def cleanItem_def m2 sch(3))
  next
    case False
    then show ?thesis
      by (cases "itemAfterCalls ?ga k ?cs None")
         (auto simp: delete_conv' update_conv' compiledItem_def cleanItem_def m2 sch(3))
  qed
  from cs dist look show ?thesis by blast
qed

subsection \<open>The rule that allows internal spans\<close>

text \<open>
  The rule that \<open>span[!data-mce-type|*]\<close> adds to an instance: the parser starts from the
  global rule of the instance, when it has one.
\<close>

lemma span_split: "split ''span[!data-mce-type|*]'' (CHR '','') = [''span[!data-mce-type|*]'']"
  by code_simp
lemma span_match: "elementRuleRegExp ''span[!data-mce-type|*]'' =
  Some \<lparr>er_prefix = None, er_elementName = ''span'', er_outputName = None, er_bang = Some [],
        er_attrData = Some ''!data-mce-type|*''\<rparr>"
  by code_simp
lemma span_attr_split: "split ''!data-mce-type|*'' (CHR ''|'') = [''!data-mce-type'', ''*'']"
  by code_simp
lemma span_attr1: "attrRuleRegExp ''!data-mce-type'' =
  Some \<lparr>ar_type = Some (CHR ''!''), ar_name = Some ''data-mce-type'', ar_op = None\<rparr>"
  by code_simp
lemma span_attr2: "attrRuleRegExp ''*'' = Some \<lparr>ar_type = None, ar_name = Some ''*'', ar_op = None\<rparr>"
  by code_simp
lemma span_names: "replaceColons ''data-mce-type'' = ''data-mce-type''" "replaceColons ''*'' = ''*''"
  "hasPatternsRegExp ''data-mce-type'' = False" "hasPatternsRegExp ''*'' = True"
  "hasPatternsRegExp ''span'' = False" "patternToRegExp ''*'' = Inr [AnyStar]"
  by code_simp+

definition internalSpanRule :: "schema_state \<Rightarrow> SchemaElement" where
  "internalSpanRule st =
     (case newRule \<lparr>er_prefix = None, er_elementName = ''span'', er_outputName = None, er_bang = Some [],
        er_attrData = Some ''!data-mce-type|*''\<rparr> (initialGlobals st) of
        (attrs, order, element) \<Rightarrow>
          element\<lparr>attributes := Some (attrs(''data-mce-type'' \<mapsto> emptyAttribute\<lparr>required := True\<rparr>)),
                  attributesOrder := Some (if attrs ''data-mce-type'' = None then order @ [''data-mce-type''] else order),
                  attributesRequired := Some [''data-mce-type''],
                  attributePatterns := Some [Attribute.extend emptyAttribute (AttributePattern.fields [AnyStar])]\<rparr>)"

lemma span_rule_added:
  "addValidElements ''span[!data-mce-type|*]'' st =
     Inr (st\<lparr>elements := (elements st)(''span'' \<mapsto> internalSpanRule st)\<rparr>)"
  by (simp add: addValidElements_def span_split addElementRule_def span_match span_attr_split
      addAttrRule_def span_attr1 span_attr2 span_names storeRule_def internalSpanRule_def
      applyOp_def orNil_def newRule_def emptyElement_def emptyAttribute_def Let_def split: prod.splits option.splits)

subsection \<open>addValidElements reads and writes the two rule tables only\<close>

text \<open>
  \<open>tablesOnly\<close> keeps the exact rules and the pattern rules of an instance and blanks the
  rest; \<open>withTables\<close> puts the two tables of one instance into another. The parser
  factors through them.
\<close>

definition tablesOnly :: "schema_state \<Rightarrow> schema_state" where
  "tablesOnly st = \<lparr>elements = elements st, children = [], childSets = (\<lambda>r. {}), nextRef = 0,
     patternElements = patternElements st, customElementsMap = Map.empty,
     blockElementsMap = {}, schemaItems = []\<rparr>"

definition withTables :: "schema_state \<Rightarrow> schema_state \<Rightarrow> schema_state" where
  "withTables st t = st\<lparr>elements := elements t, patternElements := patternElements t\<rparr>"

lemma withTables_tablesOnly [simp]: "withTables st (tablesOnly st) = st"
  by (simp add: withTables_def tablesOnly_def)

lemma tablesOnly_withTables [simp]: "tablesOnly (withTables st t) = tablesOnly t"
  by (simp add: withTables_def tablesOnly_def)

lemma withTables_withTables [simp]: "withTables (withTables st t) u = withTables st u"
  by (simp add: withTables_def)

lemma withTables_inner [simp]: "withTables st (withTables t u) = withTables st u"
  by (simp add: withTables_def)

lemma storeRule_tables:
  "storeRule m e st = map_sum id (withTables st) (storeRule m e (tablesOnly st))"
  by (auto simp: storeRule_def withTables_def tablesOnly_def Let_def split: option.splits sum.splits)

lemma addElementRule_tables:
  "addElementRule rule (g, st) =
     map_sum id (\<lambda>(g', t). (g', withTables st t)) (addElementRule rule (g, tablesOnly st))"
  unfolding addElementRule_def
  by (subst storeRule_tables) (auto split: option.splits sum.splits prod.splits)

lemma addElementRules_tables:
  "addElementRules rules (g, st) =
     map_sum id (\<lambda>(g', t). (g', withTables st t)) (addElementRules rules (g, tablesOnly st))"
proof (induction rules arbitrary: g st)
  case Nil
  show ?case by simp
next
  case (Cons rule rules)
  show ?case
  proof (cases "addElementRule rule (g, tablesOnly st)")
    case (Inl e)
    then show ?thesis by (simp add: addElementRule_tables [of rule g st])
  next
    case (Inr gt)
    obtain g' t where gt: "gt = (g', t)" by (cases gt)
    have 1: "addElementRule rule (g, st) = Inr (g', withTables st t)"
      by (simp add: addElementRule_tables [of rule g st] Inr gt)
    show ?thesis
      apply (simp add: 1 Inr gt)
      apply (subst Cons.IH [of g' "withTables st t"])
      apply (subst Cons.IH [of g' t])
      apply (cases "addElementRules rules (g', tablesOnly t)")
       apply (auto simp: )
      done
  qed
qed

lemma initialGlobals_tablesOnly [simp]: "initialGlobals (tablesOnly st) = initialGlobals st"
  by (simp add: initialGlobals_def tablesOnly_def)

lemma addValidElements_tables:
  "addValidElements s st = map_sum id (withTables st) (addValidElements s (tablesOnly st))"
  unfolding addValidElements_def
  by (subst addElementRules_tables) (auto split: sum.splits)


definition reseed :: "(string \<times> nat) list \<Rightarrow> (string \<times> nat) list \<Rightarrow> (string \<times> nat) list" where
  "reseed items ch = fold (\<lambda>item ch. AList.update (fst item) (snd item) ch) items ch"

lemma map_of_reseed: "map_of (reseed items ch) = map_of ch ++ map_of (rev items)"
  unfolding reseed_def
proof (induction items arbitrary: ch)
  case Nil
  show ?case by simp
next
  case (Cons x xs)
  show ?case by (simp add: Cons.IH update_conv' map_add_upd_left map_add_def fun_eq_iff split: option.splits)
qed


lemma setValidElements_reseed:
  "setValidElements s st =
     map_sum id (\<lambda>t. (withTables st t)\<lparr>children := reseed (schemaItems st) (children st)\<rparr>)
       (addValidElements s (tablesOnly (st\<lparr>elements := Map.empty, patternElements := []\<rparr>)))"
proof (cases "addValidElements s (tablesOnly (st\<lparr>elements := Map.empty, patternElements := []\<rparr>))")
  case (Inl e)
  then show ?thesis
    by (simp add: setValidElements_def
        addValidElements_tables [of s "st\<lparr>elements := Map.empty, patternElements := []\<rparr>"])
next
  case (Inr t)
  then show ?thesis
    by (simp add: setValidElements_def reseed_def withTables_def
        addValidElements_tables [of s "st\<lparr>elements := Map.empty, patternElements := []\<rparr>"])
qed


lemma getElementRule_cong:
  "elements a = elements b \<Longrightarrow> patternElements a = patternElements b \<Longrightarrow>
   getElementRule a n = getElementRule b n"
  by (simp add: getElementRule_def cong: option.case_cong)

lemma isValid_cong:
  "elements a = elements b \<Longrightarrow> patternElements a = patternElements b \<Longrightarrow>
   isValid a n x = isValid b n x"
  by (simp add: isValid_def getElementRule_cong [of a b])


text \<open>An instance with no rules and no children, for the concrete checks.\<close>

definition blankInstance :: schema_state where
  "blankInstance = \<lparr>elements = Map.empty, children = [], childSets = (\<lambda>r. {}), nextRef = 0,
     patternElements = [], customElementsMap = Map.empty, blockElementsMap = {},
     schemaItems = []\<rparr>"

subsection \<open>What each mutator leaves alone\<close>











subsection \<open>Every pattern rule of an instance has its matcher\<close>


















subsection \<open>getElementRule\<close>




subsection \<open>The children graph of a new instance\<close>

definition childrenOf :: "schema_state \<Rightarrow> string \<Rightarrow> string set option" where
  "childrenOf st k = map_option (childSets st) (map_of (children st) k)"

lemma isValidChild_childrenOf:
  "isValidChild st name child =
     (case childrenOf st (toLowerCase name) of None \<Rightarrow> False | Some S \<Rightarrow> toLowerCase child \<in> S)"
  by (simp add: isValidChild_def childrenOf_def split: option.splits)

definition seedChildren :: "schema \<Rightarrow> (string \<times> nat) list" where
  "seedChildren items = reseed (zip (map fst items) [0 ..< length items]) []"

lemma map_of_zip_upt:
  assumes "distinct ks"
  shows "(map_of (zip ks [0 ..< length ks]) k = Some i) = (i < length ks \<and> ks ! i = k)"
proof
  assume a: "map_of (zip ks [0 ..< length ks]) k = Some i"
  then have "k \<in> set ks"
    by (metis length_upt map_of_zip_is_None minus_nat.diff_0 option.distinct(1))
  then obtain j where j: "j < length ks" "ks ! j = k" by (auto simp: in_set_conv_nth)
  with assms have "map_of (zip ks [0 ..< length ks]) k = Some j"
    using map_of_zip_nth [of ks "[0 ..< length ks]" j] by simp
  with a j show "i < length ks \<and> ks ! i = k" by simp
next
  assume "i < length ks \<and> ks ! i = k"
  with assms show "map_of (zip ks [0 ..< length ks]) k = Some i"
    using map_of_zip_nth [of ks "[0 ..< length ks]" i] by auto
qed

lemma map_of_rev_distinct: "distinct (map fst xs) \<Longrightarrow> map_of (rev xs) = map_of xs"
  by (subst map_of_inject_set) (simp_all add: rev_map [symmetric])

lemma seedChildren_lookup:
  assumes "distinct (map fst items)"
  shows "(map_of (seedChildren items) k = Some i) = (i < length items \<and> fst (items ! i) = k)"
proof -
  have "distinct (map fst (zip (map fst items) [0 ..< length items]))"
    using assms by simp
  then have "map_of (seedChildren items) = map_of (zip (map fst items) [0 ..< length items])"
    by (simp add: seedChildren_def map_of_reseed map_of_rev_distinct)
  then show ?thesis
    using map_of_zip_upt [OF assms, of k i] by auto
qed

lemma seedChildren_item:
  assumes "distinct (map fst items)" "map_of (seedChildren items) k = Some i"
  shows "map_of items k = Some (snd (items ! i))"
proof -
  from assms have "i < length items" "fst (items ! i) = k"
    by (simp_all add: seedChildren_lookup)
  then have "(k, snd (items ! i)) \<in> set items"
    by (metis nth_mem prod.collapse)
  with assms(1) show ?thesis by simp
qed

lemma seedChildren_Some:
  assumes "distinct (map fst items)" "map_of items k = Some item"
  shows "\<exists>i. map_of (seedChildren items) k = Some i \<and> i < length items \<and> snd (items ! i) = item"
proof -
  from assms(2) have "(k, item) \<in> set items" by (rule map_of_SomeD)
  then obtain i where i: "i < length items" "items ! i = (k, item)"
    by (auto simp: in_set_conv_nth)
  then have "map_of (seedChildren items) k = Some i"
    by (simp add: seedChildren_lookup [OF assms(1)])
  with i show ?thesis by auto
qed

lemma seedChildren_None:
  assumes "distinct (map fst items)" "map_of items k = None"
  shows "map_of (seedChildren items) k = None"
proof (cases "map_of (seedChildren items) k")
  case None
  then show ?thesis .
next
  case (Some i)
  from seedChildren_item [OF assms(1) Some] assms(2) show ?thesis by simp
qed


subsection \<open>The list rule of the constructor\<close>

lemma lists_split: "split ''+ol[ul|ol],+ul[ul|ol]'' (CHR '','') = [''+ol[ul|ol]'', ''+ul[ul|ol]'']"
  by code_simp

lemma lists_match:
  "childRuleRegExp ''+ol[ul|ol]'' = Some (''+'', ''ol'', ''ul|ol'')"
  "childRuleRegExp ''+ul[ul|ol]'' = Some (''+'', ''ul'', ''ul|ol'')"
  by code_simp+

lemma lists_children: "split ''ul|ol'' (CHR ''|'') = [''ul'', ''ol'']"
  by code_simp

definition listsAdded :: "nat \<Rightarrow> nat \<Rightarrow> (nat \<Rightarrow> string set) \<Rightarrow> (nat \<Rightarrow> string set)" where
  "listsAdded a b cs =
     (cs(a := insert ''ol'' (insert ''ul'' (cs a))))
       (b := insert ''ol'' (insert ''ul'' ((cs(a := insert ''ol'' (insert ''ul'' (cs a)))) b)))"

lemma lists_added:
  "map_of (children st) ''ol'' = Some a \<Longrightarrow> map_of (children st) ''ul'' = Some b \<Longrightarrow>
   addValidChildren ''+ol[ul|ol],+ul[ul|ol]'' st = Inr (st\<lparr>childSets := listsAdded a b (childSets st)\<rparr>)"
  by (simp add: addValidChildren_def lists_split addValidChildrenRule_def lists_match
      lists_children setChild_def listsAdded_def)

subsection \<open>The instance of the constructor, without its rules\<close>

definition builtInstance :: "SchemaSettings \<Rightarrow> schema \<Rightarrow> nat \<Rightarrow> nat \<Rightarrow> schema_state" where
  "builtInstance settings items a b =
     (newInstance settings items)
       \<lparr>children := seedChildren items,
        childSets := listsAdded a b (childSets (newInstance settings items))\<rparr>"

lemma allowInternalSpans_tables:
  "allowInternalSpans st = map_sum id (withTables st) (allowInternalSpans (tablesOnly st))"
proof -
  have g: "getElementRule (tablesOnly st) ''span'' = getElementRule st ''span''"
    by (rule getElementRule_cong) (simp_all add: tablesOnly_def)
  show ?thesis
  proof (cases "getElementRule st ''span''")
    case (Inl e)
    then show ?thesis by (simp add: allowInternalSpans_def g)
  next
    case (Inr r)
    then show ?thesis
      by (cases r) (simp_all add: allowInternalSpans_def g addValidElements_tables [of _ st])
  qed
qed

lemma from_blank:
  assumes "addValidElements s blankInstance = Inr T"
  shows "tablesOnly T = T"
proof -
  have b: "tablesOnly blankInstance = blankInstance"
    by (simp add: tablesOnly_def blankInstance_def)
  have "addValidElements s (tablesOnly blankInstance) = Inr T"
    unfolding b by (rule assms)
  with addValidElements_tables [of s blankInstance]
  have "addValidElements s blankInstance = Inr (withTables blankInstance T)"
    by (simp only: map_sum.simps)
  with assms have T: "withTables blankInstance T = T" by simp
  have "tablesOnly (withTables blankInstance T) = withTables blankInstance T"
    by (simp add: withTables_def tablesOnly_def blankInstance_def)
  then show ?thesis unfolding T .
qed

text \<open>The rules that a string of valid elements gives, on their own.\<close>

definition rulesOf :: "string \<Rightarrow> error + schema_state" where
  "rulesOf s =
     (case addValidElements s blankInstance of
        Inl e \<Rightarrow> Inl e
      | Inr T \<Rightarrow> allowInternalSpans T)"

lemma list_keys:
  assumes "compileSchema t = Inr items" "distinct (map fst items)" "\<forall>k. map_of items k = compiledItem t k"
  shows "\<exists>a b. map_of (seedChildren items) ''ol'' = Some a \<and> map_of (seedChildren items) ''ul'' = Some b"
proof -
  have "compiledItem t ''ol'' \<noteq> None" "compiledItem t ''ul'' \<noteq> None"
    by (rule compiledItem_needed, simp add: neededKeys_def)+
  with assms obtain i j where "map_of items ''ol'' = Some i" "map_of items ''ul'' = Some j"
    by auto
  with seedChildren_Some [OF assms(2)] show ?thesis by blast
qed

lemma constructRules_valid_elements:
  assumes "verify_html settings \<noteq> Some False" "valid_elements settings = Some s" "s \<noteq> []"
    "custom_elements settings = None" "valid_children settings = None"
    "extended_valid_elements settings = None" "invalid_elements settings = None"
  shows "\<exists>items a b. compileSchema (schema settings) = Inr items \<and>
           constructRules settings =
             map_sum id (withTables (builtInstance settings items a b))
               (addValidElements s blankInstance)"
proof -
  from compileSchema_ok [of "schema settings"] obtain items where
    items: "compileSchema (schema settings) = Inr items" "distinct (map fst items)"
           "\<forall>k. map_of items k = compiledItem (schema settings) k"
    by blast
  from list_keys [OF items] obtain a b where
    ab: "map_of (seedChildren items) ''ol'' = Some a" "map_of (seedChildren items) ''ul'' = Some b"
    by blast
  let ?st0 = "newInstance settings items"
  have blank: "tablesOnly (?st0\<lparr>elements := Map.empty, patternElements := []\<rparr>) = blankInstance"
    by (simp add: tablesOnly_def blankInstance_def)
  have seed: "reseed (schemaItems ?st0) (children ?st0) = seedChildren items"
    by (simp add: seedChildren_def newInstance_def)
  have set: "setValidElements s ?st0 =
      map_sum id (\<lambda>t. (withTables ?st0 t)\<lparr>children := seedChildren items\<rparr>)
        (addValidElements s blankInstance)"
    by (simp add: setValidElements_reseed [of s ?st0] blank seed)
  have "constructRules settings =
      map_sum id (withTables (builtInstance settings items a b)) (addValidElements s blankInstance)"
  proof (cases "addValidElements s blankInstance")
    case (Inl e)
    then show ?thesis
      using assms by (simp add: constructRules_def items(1) orNil_def set)
  next
    case (Inr T)
    let ?st1 = "(withTables ?st0 T)\<lparr>children := seedChildren items\<rparr>"
    have l: "addValidChildren ''+ol[ul|ol],+ul[ul|ol]'' ?st1 =
             Inr (?st1\<lparr>childSets := listsAdded a b (childSets ?st1)\<rparr>)"
      by (rule lists_added) (simp_all add: ab)
    have e: "?st1\<lparr>childSets := listsAdded a b (childSets ?st1)\<rparr> =
             withTables (builtInstance settings items a b) T"
      by (simp add: withTables_def builtInstance_def)
    have c: "constructRules settings = Inr (?st1\<lparr>childSets := listsAdded a b (childSets ?st1)\<rparr>)"
      using assms
      by (simp add: constructRules_def items(1) orNil_def set Inr addCustomElements_def
          addValidChildren_def [of "[]"] addValidElements_def [of "[]"] l deleteInvalidElements_def)
    show ?thesis
      unfolding c e by (simp add: Inr)
  qed
  with items(1) show ?thesis by blast
qed

lemma Schema_valid_elements:
  assumes "verify_html settings \<noteq> Some False" "valid_elements settings = Some s" "s \<noteq> []"
    "custom_elements settings = None" "valid_children settings = None"
    "extended_valid_elements settings = None" "invalid_elements settings = None"
  shows "\<exists>X. Schema settings = map_sum id (withTables X) (rulesOf s)"
proof -
  from constructRules_valid_elements [OF assms] obtain items a b where
    c: "constructRules settings =
          map_sum id (withTables (builtInstance settings items a b)) (addValidElements s blankInstance)"
    by blast
  let ?X = "builtInstance settings items a b"
  have "Schema settings = map_sum id (withTables ?X) (rulesOf s)"
  proof (cases "addValidElements s blankInstance")
    case (Inl e)
    then show ?thesis by (simp add: Schema_def c rulesOf_def)
  next
    case (Inr T)
    have "allowInternalSpans (withTables ?X T) =
          map_sum id (withTables (withTables ?X T)) (allowInternalSpans T)"
      using allowInternalSpans_tables [of "withTables ?X T"] from_blank [OF Inr] by simp
    then show ?thesis
      by (cases "allowInternalSpans T") (simp_all add: Schema_def c rulesOf_def Inr)
  qed
  then show ?thesis ..
qed

lemma withTables_queries:
  "getElementRule (withTables X T) name = getElementRule T name"
  "isValid (withTables X T) name attr = isValid T name attr"
  by (rule getElementRule_cong isValid_cong; simp add: withTables_def)+

subsection \<open>C7: setValidElements is a full reset\<close>




lemma Schema_rulesOf:
  "s \<noteq> [] \<Longrightarrow> \<exists>X. Schema (noSettings\<lparr>valid_elements := Some s\<rparr>) = map_sum id (withTables X) (rulesOf s)"
  by (rule Schema_valid_elements) (simp_all add: noSettings_def)

lemma rules_obtain:
  "(case x of Inl e \<Rightarrow> False | Inr T \<Rightarrow> P T) \<Longrightarrow> \<exists>T. x = Inr T \<and> P T"
  by (cases x) simp_all

lemma withTables_fields [simp]:
  "elements (withTables X T) = elements T" "patternElements (withTables X T) = patternElements T"
  by (simp_all add: withTables_def)

subsection \<open>C6: getElementRule\<close>




subsection \<open>C10: a rule for span after construction\<close>

lemma internalSpanRule_fields:
  "attributesRequired (internalSpanRule st) = Some [''data-mce-type''] \<and>
   attributePatterns (internalSpanRule st) =
     Some [Attribute.extend emptyAttribute (AttributePattern.fields [AnyStar])] \<and>
   (\<exists>attrs. attributes (internalSpanRule st) = Some attrs \<and>
            attrs ''data-mce-type'' = Some (emptyAttribute\<lparr>required := True\<rparr>))"
  by (simp add: internalSpanRule_def newRule_def split: prod.splits)

lemma allowInternalSpans_cases:
  assumes "allowInternalSpans st' = Inr st"
  shows "(getElementRule st' ''span'' = Inr None \<and>
          st = st'\<lparr>elements := (elements st')(''span'' \<mapsto> internalSpanRule st')\<rparr>) \<or>
         ((\<exists>r. getElementRule st' ''span'' = Inr (Some r)) \<and> st = st')"
proof (cases "getElementRule st' ''span''")
  case (Inl e)
  with assms show ?thesis by (simp add: allowInternalSpans_def)
next
  case (Inr r)
  with assms show ?thesis
    by (cases r) (auto simp: allowInternalSpans_def span_rule_added)
qed

text \<open>
  Claim C10. When the constructor returns, \<open>getElementRule('span')\<close> is defined and
  \<open>isValid('span')\<close> is true. The instance is the one of line 845 when that one has a rule
  for \<open>span\<close>; otherwise it is that one with the rule of \<open>span[!data-mce-type|*]\<close> stored
  under \<open>span\<close>: \<open>data-mce-type\<close> is required, and the attribute pattern \<open>*\<close> is its only
  pattern.
\<close>

theorem span_rule_after_construction:
  assumes "Schema settings = Inr st"
  shows "(\<exists>r. getElementRule st ''span'' = Inr (Some r)) \<and>
         isValid st ''span'' None = Inr True \<and>
         (\<exists>st'. constructRules settings = Inr st' \<and>
            ((getElementRule st' ''span'' = Inr None \<and>
              st = st'\<lparr>elements := (elements st')(''span'' \<mapsto> internalSpanRule st')\<rparr> \<and>
              attributesRequired (internalSpanRule st') = Some [''data-mce-type''] \<and>
              attributePatterns (internalSpanRule st') =
                Some [Attribute.extend emptyAttribute (AttributePattern.fields [AnyStar])] \<and>
              (\<exists>attrs. attributes (internalSpanRule st') = Some attrs \<and>
                 attrs ''data-mce-type'' = Some (emptyAttribute\<lparr>required := True\<rparr>))) \<or>
             ((\<exists>r. getElementRule st' ''span'' = Inr (Some r)) \<and> st = st')))"
proof -
  from assms obtain st' where c: "constructRules settings = Inr st'"
    and a: "allowInternalSpans st' = Inr st"
    by (cases "constructRules settings") (simp_all add: Schema_def)
  note cases = allowInternalSpans_cases [OF a]
  from cases have g: "\<exists>r. getElementRule st ''span'' = Inr (Some r)"
    by (auto simp: getElementRule_def)
  then have v: "isValid st ''span'' None = Inr True"
    by (auto simp: isValid_def)
  from cases internalSpanRule_fields [of st'] c g v show ?thesis by blast
qed

lemma no_span_example: "\<not> isl (rulesOf ''p'')"
  by code_simp

theorem span_rule_after_construction_witness:
  "\<exists>st r. Schema (noSettings\<lparr>valid_elements := Some ''p''\<rparr>) = Inr st \<and>
     getElementRule st ''span'' = Inr (Some r) \<and> isValid st ''span'' None = Inr True"
proof -
  from Schema_rulesOf [of "''p''"] obtain X where
    X: "Schema (noSettings\<lparr>valid_elements := Some ''p''\<rparr>) = map_sum id (withTables X) (rulesOf ''p'')"
    by auto
  from isr_obtain [OF no_span_example] obtain T where T: "rulesOf ''p'' = Inr T" by blast
  have S: "Schema (noSettings\<lparr>valid_elements := Some ''p''\<rparr>) = Inr (withTables X T)"
    by (simp add: X T)
  from span_rule_after_construction [OF S] S show ?thesis by blast
qed

subsection \<open>C2: the denial of an absent attribute\<close>

lemma deny_absent_rules:
  "case rulesOf ''a[href|-id]'' of Inl e \<Rightarrow> False
   | Inr T \<Rightarrow>
       (case getElementRule T ''a'' of
          Inr (Some r) \<Rightarrow>
            (case attributes r of None \<Rightarrow> False
             | Some attrs \<Rightarrow> attrs ''href'' \<noteq> None \<and> attrs ''id'' = None) \<and>
            attributesOrder r = Some []
        | _ \<Rightarrow> False)"
  by code_simp

text \<open>
  Claim C2, at the input \<open>valid_elements = "a[href|-id]"\<close>. The rule of \<open>a\<close> never had the
  attribute \<open>id\<close>, and the denial \<open>-id\<close> takes \<open>href\<close> out of \<open>attributesOrder\<close>, the last
  entry, while the mapping keeps \<open>href\<close>: the token is not a no-op.
\<close>

theorem deny_absent_removes_last:
  "\<exists>st r attrs. Schema (noSettings\<lparr>valid_elements := Some ''a[href|-id]''\<rparr>) = Inr st \<and>
     getElementRule st ''a'' = Inr (Some r) \<and> attributes r = Some attrs \<and>
     attrs ''href'' \<noteq> None \<and> attrs ''id'' = None \<and> attributesOrder r = Some []"
proof -
  let ?s = "''a[href|-id]''"
  from Schema_rulesOf [of ?s] obtain X where
    X: "Schema (noSettings\<lparr>valid_elements := Some ?s\<rparr>) = map_sum id (withTables X) (rulesOf ?s)"
    by auto
  from rules_obtain [OF deny_absent_rules] obtain T where T: "rulesOf ?s = Inr T"
    and l: "case getElementRule T ''a'' of
          Inr (Some r) \<Rightarrow>
            (case attributes r of None \<Rightarrow> False
             | Some attrs \<Rightarrow> attrs ''href'' \<noteq> None \<and> attrs ''id'' = None) \<and>
            attributesOrder r = Some []
        | _ \<Rightarrow> False"
    by blast
  from l obtain r attrs where r: "getElementRule T ''a'' = Inr (Some r)" "attributes r = Some attrs"
    "attrs ''href'' \<noteq> None" "attrs ''id'' = None" "attributesOrder r = Some []"
    by (auto split: sum.splits option.splits)
  have "Schema (noSettings\<lparr>valid_elements := Some ?s\<rparr>) = Inr (withTables X T)"
    by (simp add: X T)
  moreover have "getElementRule (withTables X T) ''a'' = Inr (Some r)"
    by (simp add: withTables_queries r)
  ultimately show ?thesis using r by blast
qed


subsection \<open>C1: isValid and the attribute patterns\<close>

lemma attr_pattern_rules:
  "case rulesOf ''img[data-*],a[?]'' of Inl e \<Rightarrow> False
   | Inr T \<Rightarrow>
       (case getElementRule T ''img'' of
          Inr (Some r) \<Rightarrow>
            (case attributes r of None \<Rightarrow> False | Some attrs \<Rightarrow> attrs ''data-x'' = None) \<and>
            (case attributePatterns r of None \<Rightarrow> False
             | Some ps \<Rightarrow> list_ex (\<lambda>p. rx_test (attr_pattern p) ''data-x'') ps)
        | _ \<Rightarrow> False) \<and>
       isValid T ''img'' (Some ''data-x'') = Inr False \<and>
       (case getElementRule T ''a'' of
          Inr (Some r) \<Rightarrow>
            (case attributes r of None \<Rightarrow> False | Some attrs \<Rightarrow> attrs ''href'' = None) \<and>
            (case attributePatterns r of None \<Rightarrow> False
             | Some ps \<Rightarrow> \<not> list_ex (\<lambda>p. rx_test (attr_pattern p) ''href'') ps)
        | _ \<Rightarrow> False) \<and>
       isValid T ''a'' (Some ''href'') = Inr True"
  by code_simp

text \<open>
  Claim C1, at the input \<open>valid_elements = "img[data-*],a[?]"\<close>. The rule of \<open>img\<close> has no
  exact attribute \<open>data-x\<close> and its pattern \<open>data-*\<close> accepts \<open>data-x\<close>, yet
  \<open>isValid('img', 'data-x')\<close> is false; the rule of \<open>a\<close> has no exact attribute \<open>href\<close> and
  no pattern that accepts \<open>href\<close>, yet \<open>isValid('a', 'href')\<close> is true. Line 1011 tests the
  patterns against the name of the element.
\<close>

theorem isValid_tests_element_name:
  "\<exists>st r ps attrs r' ps' attrs'.
     Schema (noSettings\<lparr>valid_elements := Some ''img[data-*],a[?]''\<rparr>) = Inr st \<and>
     getElementRule st ''img'' = Inr (Some r) \<and> attributes r = Some attrs \<and>
     attrs ''data-x'' = None \<and> attributePatterns r = Some ps \<and>
     list_ex (\<lambda>p. rx_test (attr_pattern p) ''data-x'') ps \<and>
     isValid st ''img'' (Some ''data-x'') = Inr False \<and>
     getElementRule st ''a'' = Inr (Some r') \<and> attributes r' = Some attrs' \<and>
     attrs' ''href'' = None \<and> attributePatterns r' = Some ps' \<and>
     \<not> list_ex (\<lambda>p. rx_test (attr_pattern p) ''href'') ps' \<and>
     isValid st ''a'' (Some ''href'') = Inr True"
proof -
  let ?s = "''img[data-*],a[?]''"
  from Schema_rulesOf [of ?s] obtain X where
    X: "Schema (noSettings\<lparr>valid_elements := Some ?s\<rparr>) = map_sum id (withTables X) (rulesOf ?s)"
    by auto
  from rules_obtain [OF attr_pattern_rules] obtain T where T: "rulesOf ?s = Inr T"
    and l: "(case getElementRule T ''img'' of
          Inr (Some r) \<Rightarrow>
            (case attributes r of None \<Rightarrow> False | Some attrs \<Rightarrow> attrs ''data-x'' = None) \<and>
            (case attributePatterns r of None \<Rightarrow> False
             | Some ps \<Rightarrow> list_ex (\<lambda>p. rx_test (attr_pattern p) ''data-x'') ps)
        | _ \<Rightarrow> False)"
      "isValid T ''img'' (Some ''data-x'') = Inr False"
      "(case getElementRule T ''a'' of
          Inr (Some r) \<Rightarrow>
            (case attributes r of None \<Rightarrow> False | Some attrs \<Rightarrow> attrs ''href'' = None) \<and>
            (case attributePatterns r of None \<Rightarrow> False
             | Some ps \<Rightarrow> \<not> list_ex (\<lambda>p. rx_test (attr_pattern p) ''href'') ps)
        | _ \<Rightarrow> False)"
      "isValid T ''a'' (Some ''href'') = Inr True"
    by blast
  from l(1) obtain r attrs ps where r: "getElementRule T ''img'' = Inr (Some r)"
    "attributes r = Some attrs" "attrs ''data-x'' = None" "attributePatterns r = Some ps"
    "list_ex (\<lambda>p. rx_test (attr_pattern p) ''data-x'') ps"
    by (auto split: sum.splits option.splits)
  from l(3) obtain r' attrs' ps' where r': "getElementRule T ''a'' = Inr (Some r')"
    "attributes r' = Some attrs'" "attrs' ''href'' = None" "attributePatterns r' = Some ps'"
    "\<not> list_ex (\<lambda>p. rx_test (attr_pattern p) ''href'') ps'"
    by (auto split: sum.splits option.splits)
  have S: "Schema (noSettings\<lparr>valid_elements := Some ?s\<rparr>) = Inr (withTables X T)"
    by (simp add: X T)
  show ?thesis
    apply (rule exI [of _ "withTables X T"])
    apply (rule exI [of _ r], rule exI [of _ ps], rule exI [of _ attrs])
    apply (rule exI [of _ r'], rule exI [of _ ps'], rule exI [of _ attrs'])
    apply (simp only: withTables_queries)
    apply (intro conjI S r r' l(2) l(4))
    done
qed

subsection \<open>C5: the global rule is positional\<close>














end
